theory Spec2Isabelle
  imports Complex_Main
begin

section \<open>JavaScript values the two components compute with\<close>

text \<open>
  A JavaScript string is modelled as a \<^typ>\<open>string\<close>: one \<^typ>\<open>char\<close> per code unit,
  for code units below 256 (the text of an HTTP header block, and every header value the
  fetch API hands out, lies in that range).
\<close>

abbreviation LF :: char where "LF \<equiv> CHR 0x0A"
abbreviation CR :: char where "CR \<equiv> CHR 0x0D"
abbreviation SP :: char where "SP \<equiv> CHR 0x20"

text \<open>Errors are values: the \<open>Error\<close> objects the source throws itself, and the three
  kinds of native error that the runtime's constructors and parsers throw.\<close>

datatype error = Error string | RangeError | TypeError | SyntaxError

text \<open>
  A JavaScript number. \<open>Fin r\<close> is the finite double with value \<open>r\<close>; the two zeros are
  not told apart.
\<close>

datatype jsnum = NaN | PosInf | NegInf | Fin rat

text \<open>An argument that may be missing: \<open>undefined\<close>, \<open>null\<close> or a string.\<close>

datatype jsarg = Undefined | Null | Str string

subsection \<open>Rounding a rational to the nearest double\<close>

definition pow2 :: "int \<Rightarrow> rat" where
  "pow2 k = (if 0 \<le> k then 2 ^ nat k else 1 / 2 ^ nat (- k))"

definition pow10 :: "int \<Rightarrow> rat" where
  "pow10 k = (if 0 \<le> k then 10 ^ nat k else 1 / 10 ^ nat (- k))"

function bit_length :: "int \<Rightarrow> int" where
  "bit_length n = (if n \<le> 0 then 0 else 1 + bit_length (n div 2))"
  by pat_completeness auto
termination
  by (relation "measure nat") auto

declare bit_length.simps [simp del]

text \<open>The exponent \<open>e\<close> with \<open>2 ^ e \<le> x < 2 ^ (e + 1)\<close>, for a positive \<open>x\<close>.\<close>

definition binary_exponent :: "rat \<Rightarrow> int" where
  "binary_exponent x =
     (if 1 \<le> x then bit_length \<lfloor>x\<rfloor> - 1 else - bit_length (\<lceil>1 / x\<rceil> - 1))"

definition round_half_even :: "rat \<Rightarrow> int" where
  "round_half_even x =
     (let f = \<lfloor>x\<rfloor>; d = x - of_int f
      in if d < 1 / 2 then f else if 1 / 2 < d then f + 1 else if even f then f else f + 1)"

text \<open>IEEE 754 binary64, round to nearest, ties to even: 53 significant bits, the
  smallest exponent -1022, overflow to an infinity from \<open>2 ^ 1024\<close> on.\<close>

definition to_double :: "rat \<Rightarrow> jsnum" where
  "to_double x =
     (if x = 0 then Fin 0
      else let q = pow2 (max (binary_exponent \<bar>x\<bar>) (- 1022) - 52);
               y = of_int (round_half_even (\<bar>x\<bar> / q)) * q
           in if pow2 1024 \<le> y then (if 0 < x then PosInf else NegInf)
              else Fin (if 0 < x then y else - y))"

subsection \<open>Strings\<close>

definition code_unit :: "char \<Rightarrow> nat" where
  "code_unit c = of_char c"

text \<open>White space and line terminators of ECMAScript, below 256.\<close>

definition is_js_space :: "char \<Rightarrow> bool" where
  "is_js_space c = (code_unit c \<in> {0x09, 0x0A, 0x0B, 0x0C, 0x0D, 0x20, 0xA0})"

text \<open>\<open>String.prototype.trim\<close>.\<close>

definition String_trim :: "string \<Rightarrow> string" where
  "String_trim s = rev (dropWhile is_js_space (rev (dropWhile is_js_space s)))"

text \<open>\<open>String.prototype.indexOf\<close> with a one-character needle: the index of its first
  occurrence, or -1.\<close>

fun index_from :: "char \<Rightarrow> string \<Rightarrow> int \<Rightarrow> int" where
  "index_from c [] i = - 1"
| "index_from c (x # xs) i = (if x = c then i else index_from c xs (i + 1))"

definition String_indexOf :: "string \<Rightarrow> char \<Rightarrow> int" where
  "String_indexOf s c = index_from c s 0"

text \<open>\<open>String.prototype.slice(start, end)\<close>; a negative index counts from the end, and
  \<open>None\<close> is the omitted \<open>end\<close>.\<close>

definition rel_index :: "int \<Rightarrow> int \<Rightarrow> int" where
  "rel_index len i = (if i < 0 then max (len + i) 0 else min i len)"

definition String_slice :: "string \<Rightarrow> int \<Rightarrow> int option \<Rightarrow> string" where
  "String_slice s start end =
     (let len = int (length s);
          from = rel_index len start;
          to = (case end of None \<Rightarrow> len | Some e \<Rightarrow> rel_index len e)
      in take (nat (to - from)) (drop (nat from) s))"

text \<open>\<open>Array.prototype.join\<close>.\<close>

fun Array_join :: "string \<Rightarrow> string list \<Rightarrow> string" where
  "Array_join sep [] = []"
| "Array_join sep [x] = x"
| "Array_join sep (x # y # ys) = x @ sep @ Array_join sep (y # ys)"

text \<open>
  \<open>String.prototype.split\<close> for a separator that never matches the empty text. The
  matcher \<open>m\<close> gives the length of the separator's match at the head of its argument,
  0 for no match. \<open>acc\<close> holds, reversed, the text since the last match; the scan moves on
  by one character where nothing matches, and past the match where something does.
\<close>

function String_split :: "(string \<Rightarrow> nat) \<Rightarrow> string \<Rightarrow> string \<Rightarrow> string list" where
  "String_split m acc [] = [rev acc]"
| "String_split m acc (c # cs) =
     (if m (c # cs) = 0 then String_split m (c # acc) cs
      else rev acc # String_split m [] (drop (m (c # cs)) (c # cs)))"
  by pat_completeness auto
termination
  by (relation "measure (\<lambda>(m, acc, s). length s)") auto

text \<open>The regular expression \<open>/\r?\n/\<close>: the first character decides whether the optional
  carriage return is taken, so there is one way to match at most.\<close>

definition re_newline :: "string \<Rightarrow> nat" where
  "re_newline s =
     (if take 2 s = [CR, LF] then 2 else if take 1 s = [LF] then 1 else 0)"

text \<open>The regular expression \<open>/\r?\n\r?\n/\<close>: two line ends in a row.\<close>

definition re_blank_line :: "string \<Rightarrow> nat" where
  "re_blank_line s =
     (let n = re_newline s; k = re_newline (drop n s)
      in if n = 0 \<or> k = 0 then 0 else n + k)"

text \<open>A separator that is a literal, non-empty string.\<close>

definition lit :: "string \<Rightarrow> string \<Rightarrow> nat" where
  "lit sep s = (if take (length sep) s = sep then length sep else 0)"

subsection \<open>\<open>Number(value)\<close>\<close>

definition is_digit :: "nat \<Rightarrow> char \<Rightarrow> bool" where
  "is_digit base c =
     (let n = code_unit c
      in (48 \<le> n \<and> n < 48 + min base 10) \<or>
         (97 \<le> n \<and> n + 10 < 97 + base) \<or> (65 \<le> n \<and> n + 10 < 65 + base))"

definition digit_value :: "char \<Rightarrow> int" where
  "digit_value c =
     (let n = int (code_unit c)
      in if 97 \<le> n then n - 87 else if 65 \<le> n then n - 55 else n - 48)"

definition digits_value :: "int \<Rightarrow> string \<Rightarrow> int" where
  "digits_value base ds = foldl (\<lambda>a c. a * base + digit_value c) 0 ds"

text \<open>\<open>0x\<close>, \<open>0o\<close> and \<open>0b\<close> literals: a prefix, then one digit or more, no sign.\<close>

definition radix_literal :: "string \<Rightarrow> int option" where
  "radix_literal s =
     (case s of
        z # p # ds \<Rightarrow>
          (let base = (if p \<in> set ''xX'' then 16 else if p \<in> set ''oO'' then 8
                       else if p \<in> set ''bB'' then 2 else 0)
           in if z = CHR ''0'' \<and> base \<noteq> 0 \<and> ds \<noteq> [] \<and> (\<forall>d \<in> set ds. is_digit base d)
              then Some (digits_value (int base) ds) else None)
      | _ \<Rightarrow> None)"

text \<open>An exponent part: \<open>e\<close> or \<open>E\<close>, an optional sign, one digit or more; nothing at
  all is the exponent 0.\<close>

definition exponent_part :: "string \<Rightarrow> int option" where
  "exponent_part s =
     (case s of
        [] \<Rightarrow> Some 0
      | e # t \<Rightarrow>
          (let neg = (take 1 t = ''-'');
               ds = (if take 1 t = ''-'' \<or> take 1 t = ''+'' then drop 1 t else t)
           in if e \<in> set ''eE'' \<and> ds \<noteq> [] \<and> (\<forall>d \<in> set ds. is_digit 10 d)
              then Some (if neg then - digits_value 10 ds else digits_value 10 ds)
              else None))"

text \<open>An unsigned decimal literal: digits, an optional point with digits, an optional
  exponent; at least one digit before or after the point.\<close>

definition decimal_literal :: "string \<Rightarrow> rat option" where
  "decimal_literal s =
     (let ip = takeWhile (is_digit 10) s; r = dropWhile (is_digit 10) s;
          fp = (if take 1 r = ''.'' then takeWhile (is_digit 10) (drop 1 r) else []);
          r' = (if take 1 r = ''.'' then dropWhile (is_digit 10) (drop 1 r) else r)
      in if ip = [] \<and> fp = [] then None
         else case exponent_part r' of
                None \<Rightarrow> None
              | Some ex \<Rightarrow>
                  Some (of_int (digits_value 10 (ip @ fp)) * pow10 (ex - int (length fp))))"

text \<open>A decimal literal with its optional sign, or \<open>Infinity\<close>.\<close>

definition signed_literal :: "string \<Rightarrow> jsnum" where
  "signed_literal s =
     (let neg = (take 1 s = ''-'');
          u = (if take 1 s = ''-'' \<or> take 1 s = ''+'' then drop 1 s else s)
      in if u = ''Infinity'' then (if neg then NegInf else PosInf)
         else case decimal_literal u of
                None \<Rightarrow> NaN
              | Some r \<Rightarrow> to_double (if neg then - r else r))"

text \<open>\<open>StringToNumber\<close>: white space around the literal is dropped, the empty text is 0,
  and a text that is no numeric literal is \<open>NaN\<close>. It never throws.\<close>

definition StringToNumber :: "string \<Rightarrow> jsnum" where
  "StringToNumber s =
     (let t = String_trim s
      in if t = [] then Fin 0
         else case radix_literal t of
                Some n \<Rightarrow> to_double (of_int n)
              | None \<Rightarrow> signed_literal t)"

fun Number :: "jsarg \<Rightarrow> jsnum" where
  "Number Undefined = NaN"
| "Number Null = Fin 0"
| "Number (Str s) = StringToNumber s"

section \<open>The Structured Response and its header collection\<close>

text \<open>
  A header collection is its list of name and value pairs, in the order they were
  appended; a name may occur several times. Names are compared without regard to case.
\<close>

type_synonym Headers = "(string \<times> string) list"

definition lower :: "char \<Rightarrow> char" where
  "lower c =
     (if 65 \<le> code_unit c \<and> code_unit c \<le> 90 then char_of (code_unit c + 32) else c)"

definition same_name :: "string \<Rightarrow> string \<Rightarrow> bool" where
  "same_name a b = (map lower a = map lower b)"

text \<open>\<open>Headers.prototype.has\<close>, for a name that is a token (as the two names are that
  the client asks for).\<close>

definition Headers_has :: "Headers \<Rightarrow> string \<Rightarrow> bool" where
  "Headers_has hs name = (\<exists>h \<in> set hs. same_name (fst h) name)"

text \<open>\<open>Headers.prototype.get\<close>: the values under the name, in order, joined by a comma
  and a space; \<open>None\<close> is the \<open>null\<close> of a name that is not there.\<close>

definition Headers_get :: "Headers \<Rightarrow> string \<Rightarrow> string option" where
  "Headers_get hs name =
     (if Headers_has hs name
      then Some (Array_join '', '' (map snd (filter (\<lambda>h. same_name (fst h) name) hs)))
      else None)"

text \<open>A header name is a non-empty token; a header value holds no NUL, line feed or
  carriage return.\<close>

definition is_tchar :: "char \<Rightarrow> bool" where
  "is_tchar c =
     (let n = code_unit c
      in (48 \<le> n \<and> n \<le> 57) \<or> (65 \<le> n \<and> n \<le> 90) \<or> (97 \<le> n \<and> n \<le> 122) \<or>
         n \<in> {0x21, 0x23, 0x24, 0x25, 0x26, 0x27, 0x2A, 0x2B, 0x2D, 0x2E, 0x5E, 0x5F, 0x60,
               0x7C, 0x7E})"

definition is_header_name :: "string \<Rightarrow> bool" where
  "is_header_name name = (name \<noteq> [] \<and> (\<forall>c \<in> set name. is_tchar c))"

definition is_header_value :: "string \<Rightarrow> bool" where
  "is_header_value v = (\<forall>c \<in> set v. code_unit c \<notin> {0x00, 0x0A, 0x0D})"

definition is_http_space :: "char \<Rightarrow> bool" where
  "is_http_space c = (code_unit c \<in> {0x09, 0x0A, 0x0D, 0x20})"

definition normalize_value :: "string \<Rightarrow> string" where
  "normalize_value v = rev (dropWhile is_http_space (rev (dropWhile is_http_space v)))"

text \<open>\<open>Headers.prototype.append\<close> on a collection without a guard: the value loses the
  HTTP white space around it, a bad name or value is a \<open>TypeError\<close>, and the pair goes to
  the end of the list.\<close>

definition Headers_append :: "Headers \<Rightarrow> string \<Rightarrow> string \<Rightarrow> error + Headers" where
  "Headers_append hs name v =
     (if is_header_name name \<and> is_header_value (normalize_value v)
      then Inr (hs @ [(name, normalize_value v)]) else Inl TypeError)"

text \<open>
  \<open>Response\<close>: \<open>status\<close> is a number; \<open>headers\<close> is what reading the property
  gives, the collection or the error that the read throws (the getter that
  \<open>FetchProxy.fetch\<close> installs builds a fresh collection at each read).
  \<open>ProxyResponse\<close> extends it with \<open>proxyHeaders\<close>, as the interface of the source does.
\<close>

record Response =
  status :: jsnum
  statusText :: string
  headers :: "error + Headers"
  body :: string

record ProxyResponse = Response +
  proxyHeaders :: Headers

text \<open>The conversion of a number to \<open>unsigned short\<close>: not a finite number is 0, a
  finite one is cut to its integer part and taken modulo \<open>2 ^ 16\<close>.\<close>

definition to_uint16 :: "jsnum \<Rightarrow> nat" where
  "to_uint16 n =
     (case n of
        Fin r \<Rightarrow> nat ((if 0 \<le> r then \<lfloor>r\<rfloor> else \<lceil>r\<rceil>) mod 65536)
      | _ \<Rightarrow> 0)"

definition is_reason_phrase :: "string \<Rightarrow> bool" where
  "is_reason_phrase t =
     (\<forall>c \<in> set t.
        code_unit c = 0x09 \<or> (0x20 \<le> code_unit c \<and> code_unit c \<le> 0x7E) \<or> 0x80 \<le> code_unit c)"

definition null_body_status :: "nat \<Rightarrow> bool" where
  "null_body_status n = (n \<in> {101, 103, 204, 205, 304})"

text \<open>The content type of a body that is a string goes to the end of a collection that
  names no content type.\<close>

definition with_content_type :: "Headers \<Rightarrow> Headers" where
  "with_content_type hs =
     (if Headers_has hs ''content-type'' then hs
      else hs @ [(''content-type'', ''text/plain;charset=UTF-8'')])"

text \<open>
  \<open>new Response(body, {status, statusText, headers})\<close> with a body that is a string:
  a \<open>RangeError\<close> for a status outside 200 to 599 (Deno, whose \<open>Deno.Command\<close> the
  caller of the parser uses, lets 101 pass this check), a \<open>TypeError\<close> for a status text
  that is no reason phrase and for a body given to a status that allows none. The
  response has the headers it was given and, where they name none, the content type of
  its body.
\<close>

definition new_Response :: "string \<Rightarrow> jsnum \<Rightarrow> string \<Rightarrow> Headers \<Rightarrow> error + Response" where
  "new_Response b st text hs =
     (let n = to_uint16 st
      in if (n < 200 \<or> 599 < n) \<and> n \<noteq> 101 then Inl RangeError
         else if \<not> is_reason_phrase text then Inl TypeError
         else if null_body_status n then Inl TypeError
         else Inr \<lparr>status = Fin (of_nat n), statusText = text,
                   headers = Inr (with_content_type hs), body = b\<rparr>)"

section \<open>The raw response parser\<close>

text \<open>The loop over the header lines of \<open>parseRawHttpResponse\<close>; \<open>hs\<close> is the
  collection built so far.\<close>

fun header_lines :: "Headers \<Rightarrow> string list \<Rightarrow> error + Headers" where
  "header_lines hs [] = Inr hs"
| "header_lines hs (line # lines) =
     (let idx = String_indexOf line (CHR '':'')
      in if idx \<noteq> - 1
         then (case Headers_append hs (String_trim (String_slice line 0 (Some idx)))
                      (String_trim (String_slice line (idx + 1) None)) of
                 Inl e \<Rightarrow> Inl e
               | Inr hs' \<Rightarrow> header_lines hs' lines)
         else header_lines hs lines)"

definition no_status_line :: error where
  "no_status_line = Error ''Curl HTTP Response Syntax Error: No status line!''"

text \<open>
  \<open>parseRawHttpResponse\<close>. Taking the first element of an empty array gives
  \<open>undefined\<close>: for \<open>headerPart\<close> the call of \<open>split\<close> on it is then a \<open>TypeError\<close>,
  for \<open>statusLine\<close> the source throws its own error, and for \<open>statusCode\<close> the value
  goes to \<open>Number\<close> as it is.
\<close>

definition parseRawHttpResponse :: "string \<Rightarrow> error + Response" where
  "parseRawHttpResponse raw =
     (case String_split re_blank_line [] raw of
        [] \<Rightarrow> Inl TypeError
      | headerPart # bodyParts \<Rightarrow>
          (let body = Array_join [LF, LF] bodyParts
           in case String_split re_newline [] headerPart of
                [] \<Rightarrow> Inl no_status_line
              | statusLine # lines \<Rightarrow>
                  (let parts = String_split (lit '' '') [] statusLine;
                       statusCode = (case drop 1 parts of [] \<Rightarrow> Undefined | c # _ \<Rightarrow> Str c);
                       statusTextParts = drop 2 parts;
                       status = Number statusCode;
                       statusText = Array_join '' '' statusTextParts
                   in case header_lines [] lines of
                        Inl e \<Rightarrow> Inl e
                      | Inr hs \<Rightarrow> new_Response body status statusText hs)))"

section \<open>The tunnelling client\<close>

text \<open>
  The values \<open>JSON.stringify\<close> is given: \<open>undefined\<close>, a boolean, a string, an array,
  or an object as the list of its properties in their order. (The options the client
  serialises are typed as strings and booleans. A \<open>Headers\<close> instance has no enumerable
  property of its own: it is the object without properties.)
\<close>

datatype jsv = VUndefined | VBool bool | VStr string | VArr "jsv list" | VObj "(string \<times> jsv) list"

definition hex_digit :: "nat \<Rightarrow> char" where
  "hex_digit n = (if n < 10 then char_of (48 + n) else char_of (87 + n))"

text \<open>\<open>QuoteJSONString\<close>: the quote, the backslash and the control characters are
  escaped.\<close>

definition quote_char :: "char \<Rightarrow> string" where
  "quote_char c =
     (let n = code_unit c
      in if n = 0x08 then [CHR 0x5C, CHR ''b'']
         else if n = 0x09 then [CHR 0x5C, CHR ''t'']
         else if n = 0x0A then [CHR 0x5C, CHR ''n'']
         else if n = 0x0C then [CHR 0x5C, CHR ''f'']
         else if n = 0x0D then [CHR 0x5C, CHR ''r'']
         else if n = 0x22 then [CHR 0x5C, CHR 0x22]
         else if n = 0x5C then [CHR 0x5C, CHR 0x5C]
         else if n < 0x20
         then [CHR 0x5C, CHR ''u'', CHR ''0'', CHR ''0'', hex_digit (n div 16), hex_digit (n mod 16)]
         else [c])"

definition quote :: "string \<Rightarrow> string" where
  "quote s = CHR 0x22 # concat (map quote_char s) @ [CHR 0x22]"

text \<open>
  \<open>JSON.stringify\<close>; \<open>None\<close> is the result \<open>undefined\<close>. A property whose value
  serialises to \<open>undefined\<close> is left out of its object; in an array it is \<open>null\<close>.
\<close>

fun JSON_stringify :: "jsv \<Rightarrow> string option" where
  "JSON_stringify VUndefined = None"
| "JSON_stringify (VBool b) = Some (if b then ''true'' else ''false'')"
| "JSON_stringify (VStr s) = Some (quote s)"
| "JSON_stringify (VArr xs) =
     Some (''['' @ Array_join '',''
                    (map (\<lambda>x. case JSON_stringify x of None \<Rightarrow> ''null'' | Some t \<Rightarrow> t) xs)
           @ '']'')"
| "JSON_stringify (VObj ps) =
     Some (''{'' @ Array_join '',''
                    (concat (map (\<lambda>p. case JSON_stringify (snd p) of
                                         None \<Rightarrow> []
                                       | Some t \<Rightarrow> [quote (fst p) @ '':'' @ t]) ps))
           @ ''}'')"

text \<open>The value of a property that was given a string or \<open>undefined\<close>.\<close>

definition string_or_undefined :: "string option \<Rightarrow> jsv" where
  "string_or_undefined x = (case x of None \<Rightarrow> VUndefined | Some s \<Rightarrow> VStr s)"

text \<open>
  \<open>RequestInit\<close>. Every option may be missing: \<open>None\<close> is \<open>undefined\<close> or \<open>null\<close>,
  which the operator \<open>??\<close> of the source does not tell apart. The body and the abort
  signal are passed on as they come, so their types are left open.
\<close>

record ('b, 's) RequestInit =
  method_init :: "string option"
  body_init :: "'b option"
  mode :: "string option"
  keepalive :: "bool option"
  signal :: "'s option"
  credentials :: "string option"
  redirect :: "string option"
  referrer :: "string option"
  referrerPolicy :: "string option"
  integrity :: "string option"
  headers_init :: "jsv option"

text \<open>The target: a string, or a \<open>URL\<close> given by the text its \<open>toString()\<close> returns.\<close>

datatype endpoint = EndpointString string | EndpointURL string

fun endpoint_text :: "endpoint \<Rightarrow> string" where
  "endpoint_text (EndpointString s) = s"
| "endpoint_text (EndpointURL href) = href"

record FetchProxy =
  proxyEndpoint :: string

text \<open>The constructor.\<close>

definition new_FetchProxy :: "string \<Rightarrow> error + FetchProxy" where
  "new_FetchProxy endpoint =
     (if length endpoint = 0 then Inl (Error ''Proxy endpoint must not be a blank string'')
      else Inr \<lparr>proxyEndpoint = endpoint\<rparr>)"

text \<open>The object that goes through \<open>JSON.stringify\<close> into the header \<open>oproxy-options\<close>.\<close>

definition oproxy_options :: "('b, 's) RequestInit \<Rightarrow> jsv" where
  "oproxy_options options =
     VObj [(''method'', VStr (case method_init options of None \<Rightarrow> ''GET'' | Some m \<Rightarrow> m)),
           (''mode'', string_or_undefined (mode options)),
           (''credentials'', string_or_undefined (credentials options)),
           (''redirect'', string_or_undefined (redirect options)),
           (''referrer'', string_or_undefined (referrer options)),
           (''referrerPolicy'', string_or_undefined (referrerPolicy options)),
           (''integrity'', string_or_undefined (integrity options)),
           (''keepalive'', (case keepalive options of None \<Rightarrow> VUndefined | Some k \<Rightarrow> VBool k))]"

text \<open>The constant \<open>configuredOptions\<close> of \<open>FetchProxy.fetch\<close>: the options of the call
  to the relay. The options that the object literal does not name stay unset.\<close>

definition configuredOptions :: "endpoint \<Rightarrow> ('b, 's) RequestInit \<Rightarrow> ('b, 's) RequestInit" where
  "configuredOptions endpoint options =
     \<lparr>method_init = Some (case method_init options of None \<Rightarrow> ''GET'' | Some m \<Rightarrow> m),
      body_init = body_init options,
      mode = mode options,
      keepalive = keepalive options,
      signal = signal options,
      credentials = credentials options,
      redirect = Some ''manual'',
      referrer = None,
      referrerPolicy = None,
      integrity = None,
      headers_init = Some (VObj
        [(''endpoint'', VStr (endpoint_text endpoint)),
         (''oproxy-options'', string_or_undefined (JSON_stringify (oproxy_options options))),
         (''headers'',
            (case headers_init options of
               None \<Rightarrow> VStr ''{}''
             | Some h \<Rightarrow> if h = VUndefined then VStr ''{}''
                         else string_or_undefined (JSON_stringify h)))])\<rparr>"

text \<open>
  What \<open>FetchProxy.fetch\<close> makes of the relay's reply \<open>res\<close> (the source from the
  \<open>await\<close> on). Two functions of the runtime are parameters: \<open>JSON.parse\<close>, from a text
  to the decoded value, with \<open>None\<close> for the value \<open>null\<close> and \<open>SyntaxError\<close> for a text
  that is no JSON; and \<open>new Headers(init)\<close>, from a decoded value other than \<open>null\<close> to
  the collection it describes, or to the error it throws. The getter of \<open>headers\<close>
  builds the collection at each read, so an error of \<open>new Headers\<close> is the result of
  reading \<open>headers\<close>, not of \<open>fetch\<close>.
\<close>

definition resWithHeaders ::
  "(string \<Rightarrow> error + 'v option) \<Rightarrow> ('v \<Rightarrow> error + Headers) \<Rightarrow> Response \<Rightarrow> error + ProxyResponse"
where
  "resWithHeaders JSON_parse new_Headers res =
     (case headers res of
        Inl e \<Rightarrow> Inl e
      | Inr physical \<Rightarrow>
          (case (if Headers_has physical ''incomingHeaders''
                 then JSON_parse (case Headers_get physical ''incomingHeaders'' of
                                    None \<Rightarrow> [] | Some t \<Rightarrow> t)
                 else Inr None) of
             Inl e \<Rightarrow> Inl e
           | Inr receivedHeaders \<Rightarrow>
               (let receivedStatus =
                      (if Headers_has physical ''receivedStatus''
                       then Number (case Headers_get physical ''receivedStatus'' of
                                      None \<Rightarrow> Null | Some t \<Rightarrow> Str t)
                       else status res)
                in Inr \<lparr>status = receivedStatus,
                        statusText = statusText res,
                        headers = (case receivedHeaders of
                                     None \<Rightarrow> Inr physical
                                   | Some v \<Rightarrow> new_Headers v),
                        body = body res,
                        proxyHeaders = physical\<rparr>)))"

text \<open>\<open>FetchProxy.fetch\<close>, with the transport it awaits as a parameter: a failure of the
  transport is the failure of the call.\<close>

definition fetch ::
  "(string \<Rightarrow> error + 'v option) \<Rightarrow> ('v \<Rightarrow> error + Headers) \<Rightarrow>
   (string \<Rightarrow> ('b, 's) RequestInit \<Rightarrow> error + Response) \<Rightarrow>
   FetchProxy \<Rightarrow> endpoint \<Rightarrow> ('b, 's) RequestInit \<Rightarrow> error + ProxyResponse"
where
  "fetch JSON_parse new_Headers transport self endpoint options =
     (case transport (proxyEndpoint self) (configuredOptions endpoint options) of
        Inl e \<Rightarrow> Inl e
      | Inr res \<Rightarrow> resWithHeaders JSON_parse new_Headers res)"

section \<open>Vocabulary of the properties\<close>

text \<open>A header line as the specification words it: the name is the text before the first
  colon, the value the text after it, both trimmed.\<close>

definition header_of_line :: "string \<Rightarrow> string \<times> string" where
  "header_of_line line =
     (String_trim (takeWhile (\<lambda>c. c \<noteq> CHR '':'') line),
      String_trim (drop 1 (dropWhile (\<lambda>c. c \<noteq> CHR '':'') line)))"

text \<open>\<open>append\<close> accepts the name and the value of a header line.\<close>

definition append_accepts :: "string \<Rightarrow> bool" where
  "append_accepts line =
     (case Headers_append [] (fst (header_of_line line)) (snd (header_of_line line)) of
        Inl e \<Rightarrow> False
      | Inr hs \<Rightarrow> True)"

text \<open>The header lines of a raw text: the lines of its header part but the first.\<close>

definition header_lines_of :: "string \<Rightarrow> string list" where
  "header_lines_of raw =
     (case String_split re_blank_line [] raw of
        [] \<Rightarrow> []
      | headerPart # _ \<Rightarrow> drop 1 (String_split re_newline [] headerPart))"

text \<open>In \<open>h @ sep @ rest\<close> the text \<open>sep\<close> is the first blank-line boundary: the
  expression \<open>/\r?\n\r?\n/\<close> matches \<open>sep\<close> right after \<open>h\<close>, and matches at no
  position before.\<close>

definition first_blank_line :: "string \<Rightarrow> string \<Rightarrow> string \<Rightarrow> bool" where
  "first_blank_line h sep rest =
     (sep \<noteq> [] \<and> re_blank_line (sep @ rest) = length sep \<and>
      list_all (\<lambda>i. re_blank_line (drop i (h @ sep @ rest)) = 0) [0..<length h])"

text \<open>The members \<open>JSON.stringify\<close> writes for an object: the name and the text of each
  property whose value does not serialise to \<open>undefined\<close>.\<close>

definition members :: "jsv \<Rightarrow> (string \<times> string) list" where
  "members v =
     (case v of
        VObj ps \<Rightarrow> concat (map (\<lambda>p. case JSON_stringify (snd p) of
                                       None \<Rightarrow> []
                                     | Some t \<Rightarrow> [(fst p, t)]) ps)
      | _ \<Rightarrow> [])"

text \<open>A header of the request that the options describe.\<close>

definition header_sent :: "('b, 's) RequestInit \<Rightarrow> string \<Rightarrow> jsv option" where
  "header_sent init name =
     (case headers_init init of Some (VObj ps) \<Rightarrow> map_of ps name | _ \<Rightarrow> None)"

text \<open>A text is a numeric literal for \<open>Number\<close>: with the white space around it
  dropped it is empty, a literal with a radix prefix, or, after an optional sign,
  \<open>Infinity\<close> or a decimal literal.\<close>

definition numeric_literal :: "string \<Rightarrow> bool" where
  "numeric_literal s =
     (let t = String_trim s;
          u = (if take 1 t = ''-'' \<or> take 1 t = ''+'' then drop 1 t else t)
      in t = [] \<or> radix_literal t \<noteq> None \<or> u = ''Infinity'' \<or> decimal_literal u \<noteq> None)"

definition positive_integer :: "jsnum \<Rightarrow> bool" where
  "positive_integer n = (case n of Fin r \<Rightarrow> 0 < r \<and> of_int \<lfloor>r\<rfloor> = r | _ \<Rightarrow> False)"

text \<open>
  The theorems about the client hold for every \<open>JSON.parse\<close> and every \<open>new Headers\<close>.
  The closed examples need the two functions at the texts they use, where the decoded
  values are \<open>null\<close> and objects with string properties, each the list of its
  properties: \<open>new Headers\<close> appends the properties in their order; \<open>JSON.parse\<close> is
  given by a table of the texts of an example and their values, and takes a text outside
  the table as no JSON.
\<close>

fun append_all :: "Headers \<Rightarrow> (string \<times> string) list \<Rightarrow> error + Headers" where
  "append_all hs [] = Inr hs"
| "append_all hs (p # ps) =
     (case Headers_append hs (fst p) (snd p) of
        Inl e \<Rightarrow> Inl e
      | Inr hs' \<Rightarrow> append_all hs' ps)"

definition new_Headers_record :: "(string \<times> string) list \<Rightarrow> error + Headers" where
  "new_Headers_record ps = append_all [] ps"

definition JSON_parse_table ::
  "(string \<times> (string \<times> string) list option) list \<Rightarrow> string \<Rightarrow>
   error + (string \<times> string) list option"
where
  "JSON_parse_table table text =
     (case map_of table text of None \<Rightarrow> Inl SyntaxError | Some v \<Rightarrow> Inr v)"

text \<open>A transport that answers every request with the reply \<open>res\<close>.\<close>

definition reply_with :: "Response \<Rightarrow> string \<Rightarrow> (unit, unit) RequestInit \<Rightarrow> error + Response" where
  "reply_with res url init = Inr res"

text \<open>The options object \<open>{}\<close>, and a client for the relay of the examples.\<close>

definition no_options :: "(unit, unit) RequestInit" where
  "no_options =
     \<lparr>method_init = None, body_init = None, mode = None, keepalive = None, signal = None,
      credentials = None, redirect = None, referrer = None, referrerPolicy = None,
      integrity = None, headers_init = None\<rparr>"

definition relay :: FetchProxy where
  "relay = \<lparr>proxyEndpoint = ''https://relay.example/''\<rparr>"

section \<open>The raw response parser: properties\<close>

subsection \<open>Splitting\<close>

lemma split_not_Nil: "String_split m acc s \<noteq> []"
  by (induction m acc s rule: String_split.induct) auto

lemma split_at_first_match:
  assumes "sep \<noteq> []" and "m (sep @ rest) = length sep"
    and "\<forall>i<length h. m (drop i (h @ sep @ rest)) = 0"
  shows "String_split m acc (h @ sep @ rest) = (rev acc @ h) # String_split m [] rest"
  using assms(3)
proof (induction h arbitrary: acc)
  case Nil
  from assms(1) obtain c cs where s: "sep = c # cs" by (cases sep) auto
  with assms(2) have "m (c # cs @ rest) = Suc (length cs)" by simp
  with s show ?case by simp
next
  case (Cons x h)
  from Cons.prems have "m (x # h @ sep @ rest) = 0" by force
  moreover have "\<forall>i<length h. m (drop i (h @ sep @ rest)) = 0"
  proof (intro allI impI)
    fix i assume "i < length h"
    with Cons.prems have "m (drop (Suc i) ((x # h) @ sep @ rest)) = 0" by force
    then show "m (drop i (h @ sep @ rest)) = 0" by simp
  qed
  ultimately show ?case using Cons.IH [of "x # acc"] by simp
qed

lemma split_no_match:
  "\<forall>i<length h. m (drop i h) = 0 \<Longrightarrow> String_split m acc h = [rev acc @ h]"
proof (induction h arbitrary: acc)
  case Nil
  then show ?case by simp
next
  case (Cons x h)
  from Cons.prems have "m (x # h) = 0" by force
  moreover have "\<forall>i<length h. m (drop i h) = 0"
  proof (intro allI impI)
    fix i assume "i < length h"
    with Cons.prems have "m (drop (Suc i) (x # h)) = 0" by force
    then show "m (drop i h) = 0" by simp
  qed
  ultimately show ?case using Cons.IH [of "x # acc"] by simp
qed

text \<open>A match of either expression is decided by the characters it covers.\<close>

lemma re_newline_le: "re_newline s \<le> length s"
  by (cases s rule: list.exhaust; cases "tl s") (auto simp: re_newline_def)

lemma re_newline_append: "re_newline s \<noteq> 0 \<Longrightarrow> re_newline (s @ t) = re_newline s"
  by (cases s; cases "tl s") (auto simp: re_newline_def split: if_splits)

lemma re_blank_line_append:
  assumes "re_blank_line s \<noteq> 0"
  shows "re_blank_line (s @ t) = re_blank_line s"
proof -
  from assms have n: "re_newline s \<noteq> 0" and k: "re_newline (drop (re_newline s) s) \<noteq> 0"
    by (auto simp: re_blank_line_def Let_def split: if_splits)
  have "drop (re_newline s) (s @ t) = drop (re_newline s) s @ t"
    using re_newline_le [of s] by simp
  then show ?thesis
    using n k by (simp add: re_blank_line_def Let_def re_newline_append)
qed

lemma first_blank_lineD:
  assumes "first_blank_line h sep rest"
  shows "sep \<noteq> []" and "re_blank_line (sep @ rest) = length sep"
    and "\<forall>i<length h. re_blank_line (drop i (h @ sep @ rest)) = 0"
    and "\<forall>i<length h. re_blank_line (drop i h) = 0"
proof -
  from assms show "sep \<noteq> []" and "re_blank_line (sep @ rest) = length sep"
    by (simp_all add: first_blank_line_def)
  from assms show a: "\<forall>i<length h. re_blank_line (drop i (h @ sep @ rest)) = 0"
    by (simp add: first_blank_line_def list_all_iff)
  show "\<forall>i<length h. re_blank_line (drop i h) = 0"
  proof (intro allI impI)
    fix i assume i: "i < length h"
    with a have "re_blank_line (drop i h @ sep @ rest) = 0" by simp
    then show "re_blank_line (drop i h) = 0"
      using re_blank_line_append [of "drop i h" "sep @ rest"] by auto
  qed
qed

lemma split_first_blank_line:
  "first_blank_line h sep rest \<Longrightarrow>
   String_split re_blank_line [] (h @ sep @ rest) = h # String_split re_blank_line [] rest"
  using split_at_first_match [where m = re_blank_line and acc = "[]", of sep rest h]
    first_blank_lineD(1-3) [of h sep rest]
  by simp

lemma split_header_only:
  "first_blank_line h sep rest \<Longrightarrow> String_split re_blank_line [] h = [h]"
  using split_no_match [of h re_blank_line "[]"] by (simp add: first_blank_lineD)

lemma join_Cons: "ys \<noteq> [] \<Longrightarrow> Array_join sep (x # ys) = x @ sep @ Array_join sep ys"
  by (cases ys) auto

subsection \<open>The header lines\<close>

lemma index_from_eq:
  "index_from c s i =
     (if c \<in> set s then i + int (length (takeWhile (\<lambda>x. x \<noteq> c) s)) else - 1)"
  by (induction s arbitrary: i) auto

lemma indexOf_eq:
  "String_indexOf s c =
     (if c \<in> set s then int (length (takeWhile (\<lambda>x. x \<noteq> c) s)) else - 1)"
  by (simp add: String_indexOf_def index_from_eq)

lemma takeWhile_shorter: "c \<in> set s \<Longrightarrow> length (takeWhile (\<lambda>x. x \<noteq> c) s) < length s"
  by (induction s) auto

lemma slice_before:
  "c \<in> set s \<Longrightarrow> String_slice s 0 (Some (String_indexOf s c)) = takeWhile (\<lambda>x. x \<noteq> c) s"
  using takeWhile_shorter [of c s]
  by (simp add: String_slice_def rel_index_def indexOf_eq Let_def takeWhile_eq_take [symmetric])

lemma slice_after:
  "c \<in> set s \<Longrightarrow>
   String_slice s (String_indexOf s c + 1) None = drop 1 (dropWhile (\<lambda>x. x \<noteq> c) s)"
  using takeWhile_shorter [of c s]
  by (simp add: String_slice_def rel_index_def indexOf_eq Let_def dropWhile_eq_drop
      nat_add_distrib)

text \<open>A trimmed value has no HTTP white space left for \<open>append\<close> to strip.\<close>

lemma http_space_is_js_space: "is_http_space c \<Longrightarrow> is_js_space c"
  by (auto simp: is_http_space_def is_js_space_def)

lemma dropWhile_weaker:
  assumes "\<And>x. Q x \<Longrightarrow> P x"
  shows "dropWhile Q (dropWhile P xs) = dropWhile P xs"
  using assms by (induction xs) auto

lemma last_dropWhile: "dropWhile P xs \<noteq> [] \<Longrightarrow> last (dropWhile P xs) = last xs"
  by (induction xs) (auto split: if_splits)

lemma trimmed_front:
  assumes "\<And>x. Q x \<Longrightarrow> P x"
  shows "dropWhile Q (rev (dropWhile P (rev (dropWhile P xs)))) =
         rev (dropWhile P (rev (dropWhile P xs)))"
proof -
  define u where "u = dropWhile P xs"
  define w where "w = dropWhile P (rev u)"
  have "rev w = [] \<or> \<not> Q (hd (rev w))"
  proof (cases "w = []")
    case True
    then show ?thesis by simp
  next
    case False
    then have "last w = last (rev u)" unfolding w_def by (rule last_dropWhile)
    moreover from False have "u \<noteq> []" unfolding w_def by auto
    ultimately have "hd (rev w) = hd u" by (simp add: hd_rev last_rev)
    moreover have "\<not> P (hd u)" using \<open>u \<noteq> []\<close> unfolding u_def by (rule hd_dropWhile)
    ultimately show ?thesis using assms by auto
  qed
  then show ?thesis unfolding u_def w_def by (simp add: dropWhile_eq_self_iff)
qed

lemma normalize_trim: "normalize_value (String_trim v) = String_trim v"
  unfolding normalize_value_def String_trim_def
  by (simp add: trimmed_front [OF http_space_is_js_space]
      dropWhile_weaker [OF http_space_is_js_space])

lemma header_lines_step:
  "header_lines hs (line # lines) =
     (if CHR '':'' \<in> set line
      then (case Headers_append hs (fst (header_of_line line)) (snd (header_of_line line)) of
              Inl e \<Rightarrow> Inl e
            | Inr hs' \<Rightarrow> header_lines hs' lines)
      else header_lines hs lines)"
proof (cases "CHR '':'' \<in> set line")
  case True
  then have "String_indexOf line (CHR '':'') \<noteq> - 1"
    by (simp add: indexOf_eq)
  with True show ?thesis
    by (simp add: Let_def header_of_line_def slice_before slice_after)
next
  case False
  then show ?thesis by (simp add: Let_def indexOf_eq)
qed

lemma append_header_of_line:
  "Headers_append hs (fst (header_of_line line)) (snd (header_of_line line)) =
     (if is_header_name (fst (header_of_line line)) \<and> is_header_value (snd (header_of_line line))
      then Inr (hs @ [header_of_line line]) else Inl TypeError)"
  by (simp add: Headers_append_def header_of_line_def normalize_trim)

lemma header_lines_result:
  "header_lines hs lines = Inr hs' \<Longrightarrow>
   hs' = hs @ map header_of_line (filter (\<lambda>l. CHR '':'' \<in> set l) lines)"
proof (induction lines arbitrary: hs)
  case Nil
  then show ?case by simp
next
  case (Cons line lines)
  show ?case
  proof (cases "CHR '':'' \<in> set line")
    case True
    with Cons.prems obtain hs1 where
      a: "Headers_append hs (fst (header_of_line line)) (snd (header_of_line line)) = Inr hs1"
      and r: "header_lines hs1 lines = Inr hs'"
      by (auto simp: header_lines_step simp del: header_lines.simps split: sum.splits)
    from a have "hs1 = hs @ [header_of_line line]"
      by (simp add: append_header_of_line split: if_splits)
    with Cons.IH [OF r] True show ?thesis by simp
  next
    case False
    with Cons.prems have "header_lines hs lines = Inr hs'"
      by (simp add: header_lines_step del: header_lines.simps)
    with Cons.IH False show ?thesis by simp
  qed
qed

lemma append_accepts_iff:
  "append_accepts line \<longleftrightarrow>
   is_header_name (fst (header_of_line line)) \<and> is_header_value (snd (header_of_line line))"
  by (simp add: append_accepts_def append_header_of_line)

text \<open>The loop in one equation: it ends without an error when \<open>append\<close> accepts every
  line with a colon, and with the \<open>TypeError\<close> of \<open>append\<close> otherwise.\<close>

lemma header_lines_eq:
  "header_lines hs lines =
     (if list_all (\<lambda>l. CHR '':'' \<in> set l \<longrightarrow> append_accepts l) lines
      then Inr (hs @ map header_of_line (filter (\<lambda>l. CHR '':'' \<in> set l) lines))
      else Inl TypeError)"
proof (induction lines arbitrary: hs)
  case Nil
  then show ?case by simp
next
  case (Cons line lines)
  show ?case
    by (simp add: header_lines_step append_header_of_line append_accepts_iff Cons.IH
        del: header_lines.simps)
qed

lemma header_lines_error: "header_lines hs ls = Inl e \<Longrightarrow> e = TypeError"
  by (induction hs ls rule: header_lines.induct)
     (auto simp: Headers_append_def Let_def split: if_splits sum.splits)

subsection \<open>The response\<close>

lemma new_Response_error:
  "new_Response b st t hs = Inl e \<Longrightarrow> e = RangeError \<or> e = TypeError"
  by (auto simp: new_Response_def Let_def split: if_splits)

lemma new_Response_body:
  "new_Response b st t hs =
     (case new_Response [] st t hs of Inl e \<Rightarrow> Inl e | Inr r \<Rightarrow> Inr (r\<lparr>body := b\<rparr>))"
  by (simp add: new_Response_def Let_def)

lemma parse_with_body:
  assumes "String_split re_blank_line [] raw = h # bs"
    and "String_split re_blank_line [] h = [h]"
  shows "parseRawHttpResponse raw =
     (case parseRawHttpResponse h of
        Inl e \<Rightarrow> Inl e
      | Inr r \<Rightarrow> Inr (r\<lparr>body := Array_join [LF, LF] bs\<rparr>))"
  unfolding parseRawHttpResponse_def assms Let_def
  by (simp add: new_Response_body [of "Array_join [LF, LF] bs"] split: list.splits sum.splits)

lemma parse_headers:
  "parseRawHttpResponse raw = Inr r \<Longrightarrow>
   headers r =
     Inr (with_content_type
            (map header_of_line (filter (\<lambda>l. CHR '':'' \<in> set l) (header_lines_of raw))))"
  unfolding parseRawHttpResponse_def Let_def new_Response_def header_lines_of_def
  by (auto split: list.splits sum.splits if_splits dest: header_lines_result)

lemma parse_header_error:
  "header_lines [] (header_lines_of raw) = Inl e \<Longrightarrow> parseRawHttpResponse raw = Inl e"
  unfolding parseRawHttpResponse_def Let_def header_lines_of_def
  by (auto split: list.splits)

lemma parse_status_range:
  "parseRawHttpResponse raw = Inr r \<Longrightarrow>
   \<exists>n. status r = Fin (of_nat n) \<and> 200 \<le> n \<and> n \<le> 599"
  unfolding parseRawHttpResponse_def Let_def new_Response_def
  by (auto simp: null_body_status_def split: list.splits sum.splits if_splits)

text \<open>The error of the source's own check is never the result: \<open>split\<close> returns one
  piece at least, so \<open>shift\<close> always finds a status line.\<close>

lemma no_status_line_unreachable: "parseRawHttpResponse raw \<noteq> Inl no_status_line"
  unfolding parseRawHttpResponse_def Let_def
  by (auto simp: no_status_line_def split_not_Nil split: list.splits sum.splits
      dest!: header_lines_error new_Response_error)

subsection \<open>The claims about the parser\<close>

text \<open>
  C5. The claim: parsing a text with no status line, the empty text in particular, fails
  with the syntax error of the missing status line. The code does fail on the empty text,
  but not with that error: \<open>split\<close> gives the one piece \<open>""\<close>, which becomes the
  status line; its status code is \<open>undefined\<close>, \<open>Number\<close> makes it \<open>NaN\<close>, and the
  \<open>Response\<close> constructor throws a \<open>RangeError\<close>. (By \<open>no_status_line_unreachable\<close>
  the source's own error is the result for no text at all.)
\<close>

theorem parse_empty_text:
  "parseRawHttpResponse [] = Inl RangeError \<and> parseRawHttpResponse [] \<noteq> Inl no_status_line"
proof -
  have "parseRawHttpResponse [] = Inl RangeError" by code_simp
  then show ?thesis by (simp add: no_status_line_def)
qed

text \<open>
  C7. Parsing \<open>"HTTP/1.1 200 OK\r\nX-A: 1\r\nX-A: 2\r\n\r\nbody"\<close> gives status 200,
  status text \<open>OK\<close>, the header \<open>X-A\<close> twice, with the values 1 and 2 in that order
  (which \<open>get\<close> reads as \<open>"1, 2"\<close>), and the body \<open>body\<close>. The collection holds one
  more entry, the content type that the \<open>Response\<close> constructor gives a body that is a
  string.
\<close>

theorem parse_example:
  "parseRawHttpResponse
     (''HTTP/1.1 200 OK'' @ [CR, LF] @ ''X-A: 1'' @ [CR, LF] @ ''X-A: 2'' @ [CR, LF, CR, LF] @ ''body'')
   = Inr \<lparr>status = Fin 200, statusText = ''OK'',
           headers = Inr [(''X-A'', ''1''), (''X-A'', ''2''),
                          (''content-type'', ''text/plain;charset=UTF-8'')],
           body = ''body''\<rparr> \<and>
   Headers_get [(''X-A'', ''1''), (''X-A'', ''2''), (''content-type'', ''text/plain;charset=UTF-8'')]
     ''X-A'' = Some ''1, 2'' \<and>
   map snd (filter (\<lambda>h. same_name (fst h) ''X-A'')
     [(''X-A'', ''1''), (''X-A'', ''2''), (''content-type'', ''text/plain;charset=UTF-8'')])
     = [''1'', ''2'']"
  by code_simp

text \<open>
  C8, as the code has it. A header line without a colon is skipped and raises no error:
  the loop goes on as if the line were not there. A line with a colon gives the trimmed
  text before its first colon as the name and the trimmed text after it as the value to
  \<open>append\<close>. When \<open>append\<close> accepts them (the name is a non-empty token, the value holds no
  NUL, line feed or carriage return; in this model every string is a byte string), the
  line adds an entry after the entries before it, and a name that occurs again adds an
  entry and overwrites none. When \<open>append\<close> does not accept them, it throws a
  \<open>TypeError\<close>, and that is the result of the loop and of the parse. So the loop ends with
  one entry per line with a colon, in the order of the lines, when \<open>append\<close> accepts every
  such line, and with a \<open>TypeError\<close> otherwise; the headers of a parsed response are
  those entries for the header lines of the text, and the content type of the body after
  them when no line names one.
\<close>

theorem header_lines_skip_or_append:
  "(CHR '':'' \<notin> set line \<longrightarrow> header_lines hs (line # lines) = header_lines hs lines) \<and>
   (CHR '':'' \<in> set line \<longrightarrow>
      header_lines hs (line # lines) =
        (case Headers_append hs (fst (header_of_line line)) (snd (header_of_line line)) of
           Inl e \<Rightarrow> Inl e
         | Inr hs' \<Rightarrow> header_lines hs' lines)) \<and>
   (append_accepts line \<longrightarrow>
      Headers_append hs (fst (header_of_line line)) (snd (header_of_line line)) =
        Inr (hs @ [header_of_line line])) \<and>
   (CHR '':'' \<in> set line \<and> \<not> append_accepts line \<longrightarrow>
      header_lines hs (line # lines) = Inl TypeError) \<and>
   (append_accepts line \<longleftrightarrow>
      is_header_name (fst (header_of_line line)) \<and> is_header_value (snd (header_of_line line))) \<and>
   header_lines hs lines =
     (if list_all (\<lambda>l. CHR '':'' \<in> set l \<longrightarrow> append_accepts l) lines
      then Inr (hs @ map header_of_line (filter (\<lambda>l. CHR '':'' \<in> set l) lines))
      else Inl TypeError) \<and>
   (parseRawHttpResponse raw = Inr r \<longrightarrow>
      headers r =
        Inr (with_content_type
               (map header_of_line (filter (\<lambda>l. CHR '':'' \<in> set l) (header_lines_of raw))))) \<and>
   (\<not> list_all (\<lambda>l. CHR '':'' \<in> set l \<longrightarrow> append_accepts l) (header_lines_of raw) \<longrightarrow>
      parseRawHttpResponse raw = Inl TypeError)"
proof -
  have skip: "CHR '':'' \<notin> set line \<longrightarrow> header_lines hs (line # lines) = header_lines hs lines"
    by (simp add: header_lines_step del: header_lines.simps)
  have step: "CHR '':'' \<in> set line \<longrightarrow>
      header_lines hs (line # lines) =
        (case Headers_append hs (fst (header_of_line line)) (snd (header_of_line line)) of
           Inl e \<Rightarrow> Inl e
         | Inr hs' \<Rightarrow> header_lines hs' lines)"
    by (simp add: header_lines_step del: header_lines.simps)
  have accepted: "append_accepts line \<longrightarrow>
      Headers_append hs (fst (header_of_line line)) (snd (header_of_line line)) =
        Inr (hs @ [header_of_line line])"
    by (simp add: append_accepts_iff append_header_of_line)
  have refused: "CHR '':'' \<in> set line \<and> \<not> append_accepts line \<longrightarrow>
      header_lines hs (line # lines) = Inl TypeError"
    by (simp add: header_lines_eq del: header_lines.simps)
  have parsed: "parseRawHttpResponse raw = Inr r \<longrightarrow>
      headers r =
        Inr (with_content_type
               (map header_of_line (filter (\<lambda>l. CHR '':'' \<in> set l) (header_lines_of raw))))"
    by (simp add: parse_headers)
  have aborted:
    "\<not> list_all (\<lambda>l. CHR '':'' \<in> set l \<longrightarrow> append_accepts l) (header_lines_of raw) \<longrightarrow>
      parseRawHttpResponse raw = Inl TypeError"
  proof
    assume "\<not> list_all (\<lambda>l. CHR '':'' \<in> set l \<longrightarrow> append_accepts l) (header_lines_of raw)"
    then have "header_lines [] (header_lines_of raw) = Inl TypeError"
      by (simp add: header_lines_eq)
    then show "parseRawHttpResponse raw = Inl TypeError"
      by (rule parse_header_error)
  qed
  from skip step accepted refused append_accepts_iff [of line] header_lines_eq [of hs lines]
    parsed aborted
  show ?thesis by (intro conjI)
qed

theorem header_lines_skip_or_append_witness:
  "CHR '':'' \<notin> set ''malformed-line'' \<and>
   header_lines [] [''malformed-line'', ''X-A: 1'', ''X-A:2 ''] =
     Inr [(''X-A'', ''1''), (''X-A'', ''2'')] \<and>
   CHR '':'' \<in> set ''X-A:2 '' \<and> append_accepts ''X-A:2 '' \<and>
   Headers_append [(''X-A'', ''1'')] (fst (header_of_line ''X-A:2 '')) (snd (header_of_line ''X-A:2 ''))
     = Inr [(''X-A'', ''1''), (''X-A'', ''2'')] \<and>
   CHR '':'' \<in> set '': no name'' \<and> \<not> append_accepts '': no name'' \<and>
   header_lines [] ['': no name'', ''X-A: 1''] = Inl TypeError \<and>
   parseRawHttpResponse
     (''HTTP/1.1 200 OK'' @ [LF] @ ''malformed-line'' @ [LF] @ ''X-A: 1'' @ [LF, LF] @ ''body'')
     = Inr \<lparr>status = Fin 200, statusText = ''OK'',
             headers = Inr [(''X-A'', ''1''), (''content-type'', ''text/plain;charset=UTF-8'')],
             body = ''body''\<rparr> \<and>
   with_content_type (map header_of_line (filter (\<lambda>l. CHR '':'' \<in> set l)
     (header_lines_of
        (''HTTP/1.1 200 OK'' @ [LF] @ ''malformed-line'' @ [LF] @ ''X-A: 1'' @ [LF, LF] @ ''body''))))
     = [(''X-A'', ''1''), (''content-type'', ''text/plain;charset=UTF-8'')] \<and>
   parseRawHttpResponse (''HTTP/1.1 200 OK'' @ [LF] @ '': no name'' @ [LF, LF] @ ''body'')
     = Inl TypeError"
proof -
  let ?raw = "''HTTP/1.1 200 OK'' @ [LF] @ ''malformed-line'' @ [LF] @ ''X-A: 1'' @ [LF, LF] @ ''body''"
  let ?r = "\<lparr>status = Fin 200, statusText = ''OK'',
             headers = Inr [(''X-A'', ''1''), (''content-type'', ''text/plain;charset=UTF-8'')],
             body = ''body''\<rparr>"
  let ?bad = "''HTTP/1.1 200 OK'' @ [LF] @ '': no name'' @ [LF, LF] @ ''body''"
  have a: "CHR '':'' \<notin> set ''malformed-line''" by simp
  have b: "header_lines [] [''X-A: 1'', ''X-A:2 ''] = Inr [(''X-A'', ''1''), (''X-A'', ''2'')]"
    by code_simp
  have c: "CHR '':'' \<in> set ''X-A:2 ''" by simp
  have d: "append_accepts ''X-A:2 ''" by code_simp
  have e: "[(''X-A'', ''1'')] @ [header_of_line ''X-A:2 ''] = [(''X-A'', ''1''), (''X-A'', ''2'')]"
    by code_simp
  have f: "CHR '':'' \<in> set '': no name''" by simp
  have g: "\<not> append_accepts '': no name''" by code_simp
  have h: "parseRawHttpResponse ?raw = Inr ?r" by code_simp
  have i: "with_content_type (map header_of_line (filter (\<lambda>l. CHR '':'' \<in> set l)
             (header_lines_of ?raw)))
           = [(''X-A'', ''1''), (''content-type'', ''text/plain;charset=UTF-8'')]"
    by code_simp
  have j: "\<not> list_all (\<lambda>l. CHR '':'' \<in> set l \<longrightarrow> append_accepts l) (header_lines_of ?bad)"
    by code_simp
  note t1 = header_lines_skip_or_append [where line = "''malformed-line''" and hs = "[]"
      and lines = "[''X-A: 1'', ''X-A:2 '']" and raw = ?raw and r = ?r]
  note t2 = header_lines_skip_or_append [where line = "''X-A:2 ''" and hs = "[(''X-A'', ''1'')]"
      and lines = "[]" and raw = ?bad]
  note t3 = header_lines_skip_or_append [where line = "'': no name''" and hs = "[]"
      and lines = "[''X-A: 1'']" and raw = ?bad]
  from t1 a b have 1: "header_lines [] [''malformed-line'', ''X-A: 1'', ''X-A:2 ''] =
     Inr [(''X-A'', ''1''), (''X-A'', ''2'')]"
    by simp
  from t2 d e have 2: "Headers_append [(''X-A'', ''1'')] (fst (header_of_line ''X-A:2 ''))
     (snd (header_of_line ''X-A:2 '')) = Inr [(''X-A'', ''1''), (''X-A'', ''2'')]"
    by simp
  from t3 f g have 3: "header_lines [] ['': no name'', ''X-A: 1''] = Inl TypeError"
    by blast
  from t3 j have 4: "parseRawHttpResponse ?bad = Inl TypeError"
    by blast
  from a 1 c d 2 f g 3 h i 4 show ?thesis by blast
qed

text \<open>C8 as stated fails for a line with a colon whose name is no token (here it holds a
  space): the line adds no entry, and the parse ends with the \<open>TypeError\<close> of
  \<open>append\<close>.\<close>

theorem header_line_bad_name_counterexample:
  "CHR '':'' \<in> set ''bad name: v'' \<and>
   header_of_line ''bad name: v'' = (''bad name'', ''v'') \<and>
   header_lines [] [''X-A: 1'', ''bad name: v''] = Inl TypeError \<and>
   parseRawHttpResponse
     (''HTTP/1.1 200 OK'' @ [LF] @ ''X-A: 1'' @ [LF] @ ''bad name: v'' @ [LF, LF] @ ''body'')
     = Inl TypeError"
  by code_simp

text \<open>
  C9. In a text with more than one blank-line boundary, of either style of line end, only
  the first one divides the header part from the body. With \<open>s1\<close> the first boundary of
  the text and \<open>s2\<close> the first one after it, the result is that of the header part
  \<open>h\<close> alone (its status line and header lines, or its error), with the body made of
  the text \<open>p\<close> between the two boundaries, a double line feed in the place of \<open>s2\<close>,
  and the rest \<open>q\<close> with each of its boundaries replaced in the same way.
\<close>

theorem first_blank_line_divides:
  assumes "first_blank_line h s1 (p @ s2 @ q)" and "first_blank_line p s2 q"
  shows "parseRawHttpResponse (h @ s1 @ p @ s2 @ q) =
     (case parseRawHttpResponse h of
        Inl e \<Rightarrow> Inl e
      | Inr r \<Rightarrow>
          Inr (r\<lparr>body := p @ [LF, LF] @ Array_join [LF, LF] (String_split re_blank_line [] q)\<rparr>))"
proof -
  have s: "String_split re_blank_line [] (h @ s1 @ p @ s2 @ q) =
          h # p # String_split re_blank_line [] q"
    using split_first_blank_line [OF assms(1)] split_first_blank_line [OF assms(2)] by simp
  have j: "Array_join [LF, LF] (p # String_split re_blank_line [] q) =
          p @ [LF, LF] @ Array_join [LF, LF] (String_split re_blank_line [] q)"
    by (rule join_Cons) (rule split_not_Nil)
  show ?thesis
    using parse_with_body [OF s split_header_only [OF assms(1)]] unfolding j .
qed

theorem first_blank_line_divides_witness:
  "first_blank_line (''HTTP/1.1 200 OK'' @ [CR, LF] @ ''X-A: 1'') [CR, LF, CR, LF]
     (''one'' @ [CR, LF, LF] @ ''two'' @ [LF, LF] @ ''three'') \<and>
   first_blank_line ''one'' [CR, LF, LF] (''two'' @ [LF, LF] @ ''three'') \<and>
   parseRawHttpResponse
     ((''HTTP/1.1 200 OK'' @ [CR, LF] @ ''X-A: 1'') @ [CR, LF, CR, LF] @
      ''one'' @ [CR, LF, LF] @ ''two'' @ [LF, LF] @ ''three'') =
     Inr \<lparr>status = Fin 200, statusText = ''OK'', headers = Inr [(''X-A'', ''1''), (''content-type'', ''text/plain;charset=UTF-8'')],
          body = ''one'' @ [LF, LF] @ ''two'' @ [LF, LF] @ ''three''\<rparr>"
proof -
  have a: "first_blank_line (''HTTP/1.1 200 OK'' @ [CR, LF] @ ''X-A: 1'') [CR, LF, CR, LF]
     (''one'' @ [CR, LF, LF] @ ''two'' @ [LF, LF] @ ''three'')"
    by code_simp
  have b: "first_blank_line ''one'' [CR, LF, LF] (''two'' @ [LF, LF] @ ''three'')"
    by code_simp
  have c: "parseRawHttpResponse (''HTTP/1.1 200 OK'' @ [CR, LF] @ ''X-A: 1'') =
     Inr \<lparr>status = Fin 200, statusText = ''OK'',
          headers = Inr [(''X-A'', ''1''), (''content-type'', ''text/plain;charset=UTF-8'')],
          body = []\<rparr>"
    by code_simp
  have d: "Array_join [LF, LF] (String_split re_blank_line [] (''two'' @ [LF, LF] @ ''three'')) =
     ''two'' @ [LF, LF] @ ''three''"
    by code_simp
  show ?thesis
    using first_blank_line_divides [OF a b, unfolded c d] a b by simp
qed

section \<open>The tunnelling client: properties\<close>

lemma get_None_iff: "Headers_get hs name = None \<longleftrightarrow> \<not> Headers_has hs name"
  by (simp add: Headers_get_def)

lemma get_Some_has: "Headers_get hs name = Some t \<Longrightarrow> Headers_has hs name"
  by (simp add: Headers_get_def split: if_splits)

text \<open>The reply handling in one equation: the two side-channel headers are read with
  \<open>get\<close>, which is \<open>null\<close> exactly when \<open>has\<close> is false.\<close>

lemma resWithHeaders_eq:
  assumes "headers res = Inr physical"
  shows "resWithHeaders JSON_parse new_Headers res =
     (case (case Headers_get physical ''incomingHeaders'' of
              None \<Rightarrow> Inr None
            | Some t \<Rightarrow> JSON_parse t) of
        Inl e \<Rightarrow> Inl e
      | Inr received \<Rightarrow>
          Inr \<lparr>status = (case Headers_get physical ''receivedStatus'' of
                           None \<Rightarrow> status res
                         | Some t \<Rightarrow> Number (Str t)),
               statusText = statusText res,
               headers = (case received of None \<Rightarrow> Inr physical | Some v \<Rightarrow> new_Headers v),
               body = body res,
               proxyHeaders = physical\<rparr>)"
  using assms
  by (auto simp: resWithHeaders_def Let_def get_None_iff dest: get_Some_has
      split: option.splits sum.splits)

text \<open>The text of an object is made of its members.\<close>

lemma stringify_members:
  "JSON_stringify (VObj ps) =
     Some (''{'' @ Array_join '','' (map (\<lambda>m. quote (fst m) @ '':'' @ snd m) (members (VObj ps))) @ ''}'')"
proof -
  have "concat (map (\<lambda>p. case JSON_stringify (snd p) of None \<Rightarrow> []
                         | Some t \<Rightarrow> [quote (fst p) @ '':'' @ t]) ps) =
        map (\<lambda>m. quote (fst m) @ '':'' @ snd m)
          (concat (map (\<lambda>p. case JSON_stringify (snd p) of None \<Rightarrow> []
                             | Some t \<Rightarrow> [(fst p, t)]) ps))"
    by (induction ps) (auto split: option.splits)
  then show ?thesis by (simp add: members_def)
qed

lemma members_oproxy_options:
  "members (oproxy_options options) =
     [(''method'', quote (case method_init options of None \<Rightarrow> ''GET'' | Some m \<Rightarrow> m))] @
     (case mode options of None \<Rightarrow> [] | Some v \<Rightarrow> [(''mode'', quote v)]) @
     (case credentials options of None \<Rightarrow> [] | Some v \<Rightarrow> [(''credentials'', quote v)]) @
     (case redirect options of None \<Rightarrow> [] | Some v \<Rightarrow> [(''redirect'', quote v)]) @
     (case referrer options of None \<Rightarrow> [] | Some v \<Rightarrow> [(''referrer'', quote v)]) @
     (case referrerPolicy options of None \<Rightarrow> [] | Some v \<Rightarrow> [(''referrerPolicy'', quote v)]) @
     (case integrity options of None \<Rightarrow> [] | Some v \<Rightarrow> [(''integrity'', quote v)]) @
     (case keepalive options of None \<Rightarrow> []
      | Some k \<Rightarrow> [(''keepalive'', if k then ''true'' else ''false'')])"
  by (simp add: members_def oproxy_options_def string_or_undefined_def split: option.splits)

lemma stringify_oproxy_options:
  "JSON_stringify (oproxy_options options) =
     Some (''{'' @ Array_join '',''
        (map (\<lambda>m. quote (fst m) @ '':'' @ snd m) (members (oproxy_options options))) @ ''}'')"
  unfolding oproxy_options_def by (rule stringify_members)

lemma header_sent_oproxy_options:
  "header_sent (configuredOptions endpoint options) ''oproxy-options'' =
     Some (VStr (''{'' @ Array_join '',''
        (map (\<lambda>m. quote (fst m) @ '':'' @ snd m) (members (oproxy_options options))) @ ''}''))"
  by (simp add: header_sent_def configuredOptions_def stringify_oproxy_options
      string_or_undefined_def)

text \<open>The call of the transport.\<close>

lemma fetch_calls_transport:
  "fetch JSON_parse new_Headers transport self endpoint options =
     (case transport (proxyEndpoint self) (configuredOptions endpoint options) of
        Inl e \<Rightarrow> Inl e
      | Inr res \<Rightarrow> resWithHeaders JSON_parse new_Headers res)"
  by (simp add: fetch_def)

lemma fetch_observed:
  "fetch JSON_parse new_Headers (\<lambda>url init. Inl (observe url init)) self endpoint options
     = Inl (observe (proxyEndpoint self) (configuredOptions endpoint options))"
  by (simp add: fetch_def)

text \<open>\<open>Number\<close> of a text is \<open>NaN\<close> exactly when the text is no numeric literal.\<close>

lemma to_double_not_NaN: "to_double x \<noteq> NaN"
  by (simp add: to_double_def Let_def)

lemma Number_NaN_iff: "Number (Str s) = NaN \<longleftrightarrow> \<not> numeric_literal s"
  by (auto simp: StringToNumber_def signed_literal_def numeric_literal_def Let_def
      to_double_not_NaN split: option.splits if_splits)

subsection \<open>The claims about the client\<close>

text \<open>
  C1, as the code has it. When the reply carries \<open>incomingHeaders\<close> and its value decodes
  to a value other than \<open>null\<close>, reading \<open>headers\<close> of the returned response gives
  \<open>new Headers\<close> of the decoded value, and the reply's own headers are in \<open>proxyHeaders\<close>.
  When the value decodes to \<open>null\<close>, or the reply carries no \<open>incomingHeaders\<close>, the
  headers of the returned response are the reply's own, which are in \<open>proxyHeaders\<close> too.
\<close>

theorem fetch_headers:
  assumes "transport (proxyEndpoint self) (configuredOptions endpoint options) = Inr res"
    and "headers res = Inr physical"
  shows
   "(Headers_get physical ''incomingHeaders'' = Some s \<and> JSON_parse s = Inr (Some v) \<longrightarrow>
       (\<exists>r. fetch JSON_parse new_Headers transport self endpoint options = Inr r \<and>
            headers r = new_Headers v \<and> proxyHeaders r = physical)) \<and>
    (Headers_get physical ''incomingHeaders'' = Some s \<and> JSON_parse s = Inr None \<longrightarrow>
       (\<exists>r. fetch JSON_parse new_Headers transport self endpoint options = Inr r \<and>
            headers r = Inr physical \<and> proxyHeaders r = physical)) \<and>
    (Headers_get physical ''incomingHeaders'' = None \<longrightarrow>
       (\<exists>r. fetch JSON_parse new_Headers transport self endpoint options = Inr r \<and>
            headers r = Inr physical \<and> proxyHeaders r = physical))"
  proof -
  have f: "fetch JSON_parse new_Headers transport self endpoint options =
           resWithHeaders JSON_parse new_Headers res"
    by (simp add: fetch_def assms(1))
  note r = resWithHeaders_eq [OF assms(2), of JSON_parse new_Headers]
  show ?thesis
  proof (intro conjI impI)
    assume "Headers_get physical ''incomingHeaders'' = Some s \<and> JSON_parse s = Inr (Some v)"
    then show "\<exists>r. fetch JSON_parse new_Headers transport self endpoint options = Inr r \<and>
            headers r = new_Headers v \<and> proxyHeaders r = physical"
      by (simp add: f r)
  next
    assume "Headers_get physical ''incomingHeaders'' = Some s \<and> JSON_parse s = Inr None"
    then show "\<exists>r. fetch JSON_parse new_Headers transport self endpoint options = Inr r \<and>
            headers r = Inr physical \<and> proxyHeaders r = physical"
      by (simp add: f r)
  next
    assume "Headers_get physical ''incomingHeaders'' = None"
    then show "\<exists>r. fetch JSON_parse new_Headers transport self endpoint options = Inr r \<and>
            headers r = Inr physical \<and> proxyHeaders r = physical"
      by (simp add: f r)
  qed
qed

theorem fetch_headers_witness:
  \<open>Headers_get [(''incomingHeaders'', ''{"content-type":"text/plain"}''), (''x-ratelimit-remaining'', ''7'')]
      ''incomingHeaders'' = Some ''{"content-type":"text/plain"}'' \<and>
   JSON_parse_table [(''{"content-type":"text/plain"}'', Some [(''content-type'', ''text/plain'')])]
      ''{"content-type":"text/plain"}'' = Inr (Some [(''content-type'', ''text/plain'')]) \<and>
   (\<exists>r. fetch (JSON_parse_table [(''{"content-type":"text/plain"}'', Some [(''content-type'', ''text/plain'')])])
          new_Headers_record
          (reply_with \<lparr>status = Fin 200, statusText = ''OK'',
             headers = Inr [(''incomingHeaders'', ''{"content-type":"text/plain"}''),
                            (''x-ratelimit-remaining'', ''7'')],
             body = ''hi''\<rparr>)
          relay (EndpointString ''https://target.example/'') no_options = Inr r \<and>
        headers r = Inr [(''content-type'', ''text/plain'')] \<and>
        proxyHeaders r = [(''incomingHeaders'', ''{"content-type":"text/plain"}''),
                          (''x-ratelimit-remaining'', ''7'')]) \<and>
   JSON_parse_table [(''null'', None)] ''null'' = Inr None \<and>
   (\<exists>r. fetch (JSON_parse_table [(''null'', None)]) new_Headers_record
          (reply_with \<lparr>status = Fin 200, statusText = ''OK'',
             headers = Inr [(''incomingHeaders'', ''null'')], body = ''hi''\<rparr>)
          relay (EndpointString ''https://target.example/'') no_options = Inr r \<and>
        headers r = Inr [(''incomingHeaders'', ''null'')] \<and>
        proxyHeaders r = [(''incomingHeaders'', ''null'')]) \<and>
   Headers_get [(''x-ratelimit-remaining'', ''7'')] ''incomingHeaders'' = None \<and>
   (\<exists>r. fetch (JSON_parse_table []) new_Headers_record
          (reply_with \<lparr>status = Fin 200, statusText = ''OK'',
             headers = Inr [(''x-ratelimit-remaining'', ''7'')], body = ''hi''\<rparr>)
          relay (EndpointString ''https://target.example/'') no_options = Inr r \<and>
        headers r = Inr [(''x-ratelimit-remaining'', ''7'')] \<and>
        proxyHeaders r = [(''x-ratelimit-remaining'', ''7'')])\<close>
proof -
  let ?text = \<open>''{"content-type":"text/plain"}''\<close>
  let ?physical = "[(''incomingHeaders'', ?text), (''x-ratelimit-remaining'', ''7'')]"
  let ?table = "[(?text, Some [(''content-type'', ''text/plain'')])]"
  let ?res = "\<lparr>status = Fin 200, statusText = ''OK'', headers = Inr ?physical, body = ''hi''\<rparr>"
  let ?res' = "\<lparr>status = Fin 200, statusText = ''OK'',
                 headers = Inr [(''x-ratelimit-remaining'', ''7'')], body = ''hi''\<rparr>"
  have g: "Headers_get ?physical ''incomingHeaders'' = Some ?text" by code_simp
  have j: "JSON_parse_table ?table ?text = Inr (Some [(''content-type'', ''text/plain'')])"
    by code_simp
  have n: "new_Headers_record [(''content-type'', ''text/plain'')] =
           Inr [(''content-type'', ''text/plain'')]"
    by code_simp
  have g': "Headers_get [(''x-ratelimit-remaining'', ''7'')] ''incomingHeaders'' = None"
    by code_simp
  have t: "reply_with ?res (proxyEndpoint relay)
             (configuredOptions (EndpointString ''https://target.example/'') no_options) = Inr ?res"
    by (simp add: reply_with_def)
  have t': "reply_with ?res' (proxyEndpoint relay)
             (configuredOptions (EndpointString ''https://target.example/'') no_options) = Inr ?res'"
    by (simp add: reply_with_def)
  have h: "headers ?res = Inr ?physical" by simp
  have h': "headers ?res' = Inr [(''x-ratelimit-remaining'', ''7'')]" by simp
  from fetch_headers [where transport = "reply_with ?res" and self = relay and options = no_options
      and endpoint = "EndpointString ''https://target.example/''" and res = ?res
      and physical = ?physical and s = ?text and JSON_parse = "JSON_parse_table ?table"
      and v = "[(''content-type'', ''text/plain'')]" and new_Headers = new_Headers_record, OF t h]
    g j n
  have 1: "\<exists>r. fetch (JSON_parse_table ?table) new_Headers_record (reply_with ?res)
          relay (EndpointString ''https://target.example/'') no_options = Inr r \<and>
        headers r = Inr [(''content-type'', ''text/plain'')] \<and> proxyHeaders r = ?physical"
    by simp
  from fetch_headers [where transport = "reply_with ?res'" and self = relay
      and options = no_options and endpoint = "EndpointString ''https://target.example/''"
      and res = ?res' and physical = "[(''x-ratelimit-remaining'', ''7'')]"
      and JSON_parse = "JSON_parse_table []" and new_Headers = new_Headers_record, OF t' h'] g'
  have 2: "\<exists>r. fetch (JSON_parse_table []) new_Headers_record (reply_with ?res')
          relay (EndpointString ''https://target.example/'') no_options = Inr r \<and>
        headers r = Inr [(''x-ratelimit-remaining'', ''7'')] \<and>
        proxyHeaders r = [(''x-ratelimit-remaining'', ''7'')]"
    by simp
  let ?res0 = "\<lparr>status = Fin 200, statusText = ''OK'',
                 headers = Inr [(''incomingHeaders'', ''null'')], body = ''hi''\<rparr>"
  have g0: "Headers_get [(''incomingHeaders'', ''null'')] ''incomingHeaders'' = Some ''null''"
    by code_simp
  have j0: "JSON_parse_table [(''null'', None)] ''null'' = Inr None" by code_simp
  have t0: "reply_with ?res0 (proxyEndpoint relay)
             (configuredOptions (EndpointString ''https://target.example/'') no_options) = Inr ?res0"
    by (simp add: reply_with_def)
  have h0: "headers ?res0 = Inr [(''incomingHeaders'', ''null'')]" by simp
  from fetch_headers [where transport = "reply_with ?res0" and self = relay
      and options = no_options and endpoint = "EndpointString ''https://target.example/''"
      and res = ?res0 and physical = "[(''incomingHeaders'', ''null'')]" and s = "''null''"
      and JSON_parse = "JSON_parse_table [(''null'', None)]"
      and new_Headers = new_Headers_record, OF t0 h0] g0 j0
  have 0: "\<exists>r. fetch (JSON_parse_table [(''null'', None)]) new_Headers_record (reply_with ?res0)
          relay (EndpointString ''https://target.example/'') no_options = Inr r \<and>
        headers r = Inr [(''incomingHeaders'', ''null'')] \<and>
        proxyHeaders r = [(''incomingHeaders'', ''null'')]"
    by simp
  from g j 1 j0 0 g' 2 show ?thesis by blast
qed

text \<open>
  C1 as stated fails where the value of \<open>incomingHeaders\<close> is the JSON text \<open>null\<close>:
  the header is there, it decodes to \<open>null\<close>, and the guard \<open>receivedHeaders != null\<close>
  leaves the headers of the reply in place, the header \<open>incomingHeaders\<close> among them.
\<close>

theorem incomingHeaders_null_counterexample:
  "Headers_has [(''incomingHeaders'', ''null''), (''x-ratelimit-remaining'', ''7'')] ''incomingHeaders'' \<and>
   JSON_parse_table [(''null'', None)] ''null'' = Inr None \<and>
   fetch (JSON_parse_table [(''null'', None)]) new_Headers_record
     (reply_with \<lparr>status = Fin 200, statusText = ''OK'',
        headers = Inr [(''incomingHeaders'', ''null''), (''x-ratelimit-remaining'', ''7'')],
        body = ''hi''\<rparr>)
     relay (EndpointString ''https://target.example/'') no_options =
   Inr \<lparr>status = Fin 200, statusText = ''OK'',
        headers = Inr [(''incomingHeaders'', ''null''), (''x-ratelimit-remaining'', ''7'')],
        body = ''hi'',
        proxyHeaders = [(''incomingHeaders'', ''null''), (''x-ratelimit-remaining'', ''7'')]\<rparr>"
  by code_simp

text \<open>
  C2. When the reply carries \<open>receivedStatus\<close> and \<open>Number\<close> of its value is \<open>N\<close>, the
  status of the returned response is \<open>N\<close>, whatever the status of the reply; when the
  reply carries no \<open>receivedStatus\<close>, it is the status of the reply.
\<close>

theorem fetch_status:
  assumes "transport (proxyEndpoint self) (configuredOptions endpoint options) = Inr res"
    and "headers res = Inr physical"
    and "fetch JSON_parse new_Headers transport self endpoint options = Inr r"
  shows
   "(Headers_get physical ''receivedStatus'' = Some s \<and> Number (Str s) = N \<longrightarrow> status r = N) \<and>
    (Headers_get physical ''receivedStatus'' = None \<longrightarrow> status r = status res)"
  using assms(3)
  by (auto simp: fetch_def assms(1) resWithHeaders_eq [OF assms(2)]
      split: sum.splits option.splits)

theorem fetch_status_witness:
  "Headers_get [(''receivedStatus'', ''404'')] ''receivedStatus'' = Some ''404'' \<and>
   Number (Str ''404'') = Fin 404 \<and>
   fetch (JSON_parse_table []) new_Headers_record
     (reply_with \<lparr>status = Fin 200, statusText = ''OK'',
        headers = Inr [(''receivedStatus'', ''404'')], body = ''gone''\<rparr>)
     relay (EndpointString ''https://target.example/'') no_options =
   Inr \<lparr>status = Fin 404, statusText = ''OK'', headers = Inr [(''receivedStatus'', ''404'')],
        body = ''gone'', proxyHeaders = [(''receivedStatus'', ''404'')]\<rparr> \<and>
   status \<lparr>status = Fin 404, statusText = ''OK'', headers = Inr [(''receivedStatus'', ''404'')],
        body = ''gone'', proxyHeaders = [(''receivedStatus'', ''404'')]\<rparr> = Fin 404 \<and>
   Headers_get [(''server'', ''relay'')] ''receivedStatus'' = None \<and>
   fetch (JSON_parse_table []) new_Headers_record
     (reply_with \<lparr>status = Fin 502, statusText = ''Bad Gateway'',
        headers = Inr [(''server'', ''relay'')], body = []\<rparr>)
     relay (EndpointString ''https://target.example/'') no_options =
   Inr \<lparr>status = Fin 502, statusText = ''Bad Gateway'', headers = Inr [(''server'', ''relay'')],
        body = [], proxyHeaders = [(''server'', ''relay'')]\<rparr>"
proof -
  let ?ep = "EndpointString ''https://target.example/''"
  let ?res = "\<lparr>status = Fin 200, statusText = ''OK'',
                headers = Inr [(''receivedStatus'', ''404'')], body = ''gone''\<rparr>"
  let ?r = "\<lparr>status = Fin 404, statusText = ''OK'', headers = Inr [(''receivedStatus'', ''404'')],
        body = ''gone'', proxyHeaders = [(''receivedStatus'', ''404'')]\<rparr>"
  let ?res' = "\<lparr>status = Fin 502, statusText = ''Bad Gateway'',
                 headers = Inr [(''server'', ''relay'')], body = []\<rparr>"
  let ?r' = "\<lparr>status = Fin 502, statusText = ''Bad Gateway'', headers = Inr [(''server'', ''relay'')],
        body = [], proxyHeaders = [(''server'', ''relay'')]\<rparr>"
  have g: "Headers_get [(''receivedStatus'', ''404'')] ''receivedStatus'' = Some ''404''"
    by code_simp
  have n: "Number (Str ''404'') = Fin 404" by code_simp
  have f: "fetch (JSON_parse_table []) new_Headers_record (reply_with ?res) relay ?ep no_options
           = Inr ?r"
    by code_simp
  have g': "Headers_get [(''server'', ''relay'')] ''receivedStatus'' = None" by code_simp
  have f': "fetch (JSON_parse_table []) new_Headers_record (reply_with ?res') relay ?ep no_options
           = Inr ?r'"
    by code_simp
  have t: "reply_with ?res (proxyEndpoint relay) (configuredOptions ?ep no_options) = Inr ?res"
    by (simp add: reply_with_def)
  have t': "reply_with ?res' (proxyEndpoint relay) (configuredOptions ?ep no_options) = Inr ?res'"
    by (simp add: reply_with_def)
  have h: "headers ?res = Inr [(''receivedStatus'', ''404'')]" by simp
  have h': "headers ?res' = Inr [(''server'', ''relay'')]" by simp
  from fetch_status [where transport = "reply_with ?res" and self = relay and options = no_options
      and endpoint = ?ep and res = ?res and physical = "[(''receivedStatus'', ''404'')]"
      and JSON_parse = "JSON_parse_table []" and new_Headers = new_Headers_record
      and r = ?r and s = "''404''" and N = "Fin 404", OF t h f] g n
  have 1: "status ?r = Fin 404" by blast
  from fetch_status [where transport = "reply_with ?res'" and self = relay and options = no_options
      and endpoint = ?ep and res = ?res' and physical = "[(''server'', ''relay'')]"
      and JSON_parse = "JSON_parse_table []" and new_Headers = new_Headers_record
      and r = ?r', OF t' h' f'] g'
  have 2: "status ?r' = status ?res'" by blast
  from g n f 1 g' f' show ?thesis by blast
qed

text \<open>
  C3. The one call of the transport is the call to the relay with the options
  \<open>configuredOptions\<close>: the result of \<open>fetch\<close> is made of the transport's answer to that
  call, whatever a transport reports of the call it gets is reported of that call, and a
  transport that refuses every other call, or every redirect policy but \<open>manual\<close>, gives
  the same result. Whatever the caller's options, the redirect policy of the call is
  \<open>manual\<close>. The header \<open>oproxy-options\<close> of the call is the text of the members of the
  envelope, and the member \<open>redirect\<close> is the caller's value, quoted, or is not there
  when the caller set none.
\<close>

theorem redirect_manual:
  "fetch JSON_parse new_Headers transport self endpoint options =
     (case transport (proxyEndpoint self) (configuredOptions endpoint options) of
        Inl e \<Rightarrow> Inl e
      | Inr res \<Rightarrow> resWithHeaders JSON_parse new_Headers res) \<and>
   fetch JSON_parse new_Headers (\<lambda>url init. Inl (observe url init)) self endpoint options =
     Inl (observe (proxyEndpoint self) (configuredOptions endpoint options)) \<and>
   fetch JSON_parse new_Headers
     (\<lambda>url init. Inl (Error (case redirect init of None \<Rightarrow> ''unset'' | Some policy \<Rightarrow> policy)))
     self endpoint options = Inl (Error ''manual'') \<and>
   fetch JSON_parse new_Headers
     (\<lambda>url init. Inl (Error (case header_sent init ''oproxy-options'' of
                                Some (VStr t) \<Rightarrow> t
                              | _ \<Rightarrow> ''no text'')))
     self endpoint options =
     Inl (Error (''{'' @ Array_join '',''
        (map (\<lambda>m. quote (fst m) @ '':'' @ snd m) (members (oproxy_options options))) @ ''}'')) \<and>
   fetch JSON_parse new_Headers transport self endpoint options =
     fetch JSON_parse new_Headers
       (\<lambda>url init. if url = proxyEndpoint self \<and> init = configuredOptions endpoint options
                    then transport url init else Inl (Error ''another call''))
       self endpoint options \<and>
   fetch JSON_parse new_Headers transport self endpoint options =
     fetch JSON_parse new_Headers
       (\<lambda>url init. if redirect init = Some ''manual'' then transport url init
                    else Inl (Error ''redirect'')) self endpoint options \<and>
   redirect (configuredOptions endpoint options) = Some ''manual'' \<and>
   header_sent (configuredOptions endpoint options) ''oproxy-options'' =
     Some (VStr (''{'' @ Array_join '',''
        (map (\<lambda>m. quote (fst m) @ '':'' @ snd m) (members (oproxy_options options))) @ ''}'')) \<and>
   map_of (members (oproxy_options options)) ''redirect'' = map_option quote (redirect options)"
proof -
  have r: "redirect (configuredOptions endpoint options) = Some ''manual''"
    by (simp add: configuredOptions_def)
  have h: "header_sent (configuredOptions endpoint options) ''oproxy-options'' =
     Some (VStr (''{'' @ Array_join '',''
        (map (\<lambda>m. quote (fst m) @ '':'' @ snd m) (members (oproxy_options options))) @ ''}''))"
    by (rule header_sent_oproxy_options)
  have m: "map_of (members (oproxy_options options)) ''redirect'' =
             map_option quote (redirect options)"
    by (simp add: members_oproxy_options split: option.splits)
  have c: "fetch JSON_parse new_Headers transport self endpoint options =
     (case transport (proxyEndpoint self) (configuredOptions endpoint options) of
        Inl e \<Rightarrow> Inl e
      | Inr res \<Rightarrow> resWithHeaders JSON_parse new_Headers res)"
    by (rule fetch_calls_transport)
  have ob: "fetch JSON_parse new_Headers (\<lambda>url init. Inl (observe url init)) self endpoint options
      = Inl (observe (proxyEndpoint self) (configuredOptions endpoint options))"
    by (rule fetch_observed)
  have o1: "fetch JSON_parse new_Headers
     (\<lambda>url init. Inl (Error (case redirect init of None \<Rightarrow> ''unset'' | Some policy \<Rightarrow> policy)))
     self endpoint options = Inl (Error ''manual'')"
    by (simp add: fetch_observed r)
  have o2: "fetch JSON_parse new_Headers
     (\<lambda>url init. Inl (Error (case header_sent init ''oproxy-options'' of
                                Some (VStr t) \<Rightarrow> t
                              | _ \<Rightarrow> ''no text'')))
     self endpoint options =
     Inl (Error (''{'' @ Array_join '',''
        (map (\<lambda>m. quote (fst m) @ '':'' @ snd m) (members (oproxy_options options))) @ ''}''))"
    by (simp add: fetch_observed h)
  have g1: "fetch JSON_parse new_Headers transport self endpoint options =
     fetch JSON_parse new_Headers
       (\<lambda>url init. if url = proxyEndpoint self \<and> init = configuredOptions endpoint options
                    then transport url init else Inl (Error ''another call''))
       self endpoint options"
    by (simp add: fetch_calls_transport)
  have g2: "fetch JSON_parse new_Headers transport self endpoint options =
     fetch JSON_parse new_Headers
       (\<lambda>url init. if redirect init = Some ''manual'' then transport url init
                    else Inl (Error ''redirect'')) self endpoint options"
    by (simp add: fetch_calls_transport r)
  from c ob o1 o2 g1 g2 r h m show ?thesis by (intro conjI)
qed

text \<open>
  C4. The one call of the transport is the call to the relay with the options
  \<open>configuredOptions\<close>. The header \<open>oproxy-options\<close> of that call is the text of the
  members of the envelope, which are \<open>method\<close>, then one member for each of \<open>mode\<close>,
  \<open>credentials\<close>, \<open>redirect\<close>, \<open>referrer\<close>, \<open>referrerPolicy\<close>, \<open>integrity\<close> and
  \<open>keepalive\<close> that the caller set, with the caller's value, and none for an option left
  unset. The member \<open>method\<close> is always there: it is the caller's method, or \<open>GET\<close>, and
  the method of the call is the same.
\<close>

theorem unset_options_omitted:
  "fetch JSON_parse new_Headers transport self endpoint options =
     (case transport (proxyEndpoint self) (configuredOptions endpoint options) of
        Inl e \<Rightarrow> Inl e
      | Inr res \<Rightarrow> resWithHeaders JSON_parse new_Headers res) \<and>
   fetch JSON_parse new_Headers (\<lambda>url init. Inl (observe url init)) self endpoint options =
     Inl (observe (proxyEndpoint self) (configuredOptions endpoint options)) \<and>
   fetch JSON_parse new_Headers
     (\<lambda>url init. Inl (Error (case method_init init of None \<Rightarrow> ''unset'' | Some m \<Rightarrow> m)))
     self endpoint options =
     Inl (Error (case method_init options of None \<Rightarrow> ''GET'' | Some m \<Rightarrow> m)) \<and>
   fetch JSON_parse new_Headers
     (\<lambda>url init. Inl (Error (case header_sent init ''oproxy-options'' of
                                Some (VStr t) \<Rightarrow> t
                              | _ \<Rightarrow> ''no text'')))
     self endpoint options =
     Inl (Error (''{'' @ Array_join '',''
        (map (\<lambda>m. quote (fst m) @ '':'' @ snd m) (members (oproxy_options options))) @ ''}'')) \<and>
   members (oproxy_options options) =
     [(''method'', quote (case method_init options of None \<Rightarrow> ''GET'' | Some m \<Rightarrow> m))] @
     (case mode options of None \<Rightarrow> [] | Some v \<Rightarrow> [(''mode'', quote v)]) @
     (case credentials options of None \<Rightarrow> [] | Some v \<Rightarrow> [(''credentials'', quote v)]) @
     (case redirect options of None \<Rightarrow> [] | Some v \<Rightarrow> [(''redirect'', quote v)]) @
     (case referrer options of None \<Rightarrow> [] | Some v \<Rightarrow> [(''referrer'', quote v)]) @
     (case referrerPolicy options of None \<Rightarrow> [] | Some v \<Rightarrow> [(''referrerPolicy'', quote v)]) @
     (case integrity options of None \<Rightarrow> [] | Some v \<Rightarrow> [(''integrity'', quote v)]) @
     (case keepalive options of None \<Rightarrow> []
      | Some k \<Rightarrow> [(''keepalive'', if k then ''true'' else ''false'')]) \<and>
   header_sent (configuredOptions endpoint options) ''oproxy-options'' =
     Some (VStr (''{'' @ Array_join '',''
        (map (\<lambda>m. quote (fst m) @ '':'' @ snd m) (members (oproxy_options options))) @ ''}'')) \<and>
   method_init (configuredOptions endpoint options) =
     Some (case method_init options of None \<Rightarrow> ''GET'' | Some m \<Rightarrow> m) \<and>
   map_of (members (oproxy_options options)) ''method'' =
     Some (quote (case method_init options of None \<Rightarrow> ''GET'' | Some m \<Rightarrow> m)) \<and>
   map_of (members (oproxy_options options)) ''mode'' = map_option quote (mode options) \<and>
   map_of (members (oproxy_options options)) ''credentials'' = map_option quote (credentials options) \<and>
   map_of (members (oproxy_options options)) ''redirect'' = map_option quote (redirect options) \<and>
   map_of (members (oproxy_options options)) ''referrer'' = map_option quote (referrer options) \<and>
   map_of (members (oproxy_options options)) ''referrerPolicy'' =
     map_option quote (referrerPolicy options) \<and>
   map_of (members (oproxy_options options)) ''integrity'' = map_option quote (integrity options) \<and>
   map_of (members (oproxy_options options)) ''keepalive'' =
     map_option (\<lambda>k. if k then ''true'' else ''false'') (keepalive options)"
proof (intro conjI)
  show "fetch JSON_parse new_Headers transport self endpoint options =
     (case transport (proxyEndpoint self) (configuredOptions endpoint options) of
        Inl e \<Rightarrow> Inl e
      | Inr res \<Rightarrow> resWithHeaders JSON_parse new_Headers res)"
    by (rule fetch_calls_transport)
  show "fetch JSON_parse new_Headers (\<lambda>url init. Inl (observe url init)) self endpoint options
      = Inl (observe (proxyEndpoint self) (configuredOptions endpoint options))"
    by (rule fetch_observed)
  show "fetch JSON_parse new_Headers
     (\<lambda>url init. Inl (Error (case method_init init of None \<Rightarrow> ''unset'' | Some m \<Rightarrow> m)))
     self endpoint options =
     Inl (Error (case method_init options of None \<Rightarrow> ''GET'' | Some m \<Rightarrow> m))"
    by (simp add: fetch_observed configuredOptions_def)
  show "fetch JSON_parse new_Headers
     (\<lambda>url init. Inl (Error (case header_sent init ''oproxy-options'' of
                                Some (VStr t) \<Rightarrow> t
                              | _ \<Rightarrow> ''no text'')))
     self endpoint options =
     Inl (Error (''{'' @ Array_join '',''
        (map (\<lambda>m. quote (fst m) @ '':'' @ snd m) (members (oproxy_options options))) @ ''}''))"
    by (simp add: fetch_observed header_sent_oproxy_options)
  show "header_sent (configuredOptions endpoint options) ''oproxy-options'' =
     Some (VStr (''{'' @ Array_join '',''
        (map (\<lambda>m. quote (fst m) @ '':'' @ snd m) (members (oproxy_options options))) @ ''}''))"
    by (rule header_sent_oproxy_options)
  show "method_init (configuredOptions endpoint options) =
     Some (case method_init options of None \<Rightarrow> ''GET'' | Some m \<Rightarrow> m)"
    by (simp add: configuredOptions_def)
qed (simp_all add: members_oproxy_options split: option.splits)

text \<open>
  C6, as the code has it. \<open>Number\<close> never throws, so no value of \<open>receivedStatus\<close> makes
  the call fail: the status of the response returned is \<open>Number\<close> of the value. That is
  \<open>NaN\<close> exactly for a value that is no numeric literal; an empty value, or one of white
  space only, is a literal and gives the status 0, and \<open>Infinity\<close> gives an infinity.
  A call whose transport succeeded fails only with the error that \<open>JSON.parse\<close> throws
  for the value of \<open>incomingHeaders\<close>; without that header it returns.
\<close>

theorem receivedStatus_never_throws:
  assumes "transport (proxyEndpoint self) (configuredOptions endpoint options) = Inr res"
    and "headers res = Inr physical"
    and "Headers_get physical ''receivedStatus'' = Some s"
  shows
   "(\<forall>r. fetch JSON_parse new_Headers transport self endpoint options = Inr r \<longrightarrow>
         status r = Number (Str s)) \<and>
    (\<forall>e. fetch JSON_parse new_Headers transport self endpoint options = Inl e \<longrightarrow>
         (\<exists>t. Headers_get physical ''incomingHeaders'' = Some t \<and> JSON_parse t = Inl e)) \<and>
    (Headers_get physical ''incomingHeaders'' = None \<longrightarrow>
       (\<exists>r. fetch JSON_parse new_Headers transport self endpoint options = Inr r \<and>
            status r = Number (Str s))) \<and>
    (Number (Str s) = NaN \<longleftrightarrow> \<not> numeric_literal s) \<and>
    (String_trim s = [] \<longrightarrow> Number (Str s) = Fin 0)"
proof -
  have f: "fetch JSON_parse new_Headers transport self endpoint options =
           resWithHeaders JSON_parse new_Headers res"
    by (simp add: fetch_def assms(1))
  note r = resWithHeaders_eq [OF assms(2), of JSON_parse new_Headers]
  have 1: "\<forall>r. fetch JSON_parse new_Headers transport self endpoint options = Inr r \<longrightarrow>
         status r = Number (Str s)"
    using assms(3) by (auto simp: f r split: sum.splits option.splits)
  have 2: "\<forall>e. fetch JSON_parse new_Headers transport self endpoint options = Inl e \<longrightarrow>
         (\<exists>t. Headers_get physical ''incomingHeaders'' = Some t \<and> JSON_parse t = Inl e)"
    by (auto simp: f r split: sum.splits option.splits)
  have 3: "Headers_get physical ''incomingHeaders'' = None \<longrightarrow>
       (\<exists>r. fetch JSON_parse new_Headers transport self endpoint options = Inr r \<and>
            status r = Number (Str s))"
    using assms(3) by (simp add: f r)
  have 4: "Number (Str s) = NaN \<longleftrightarrow> \<not> numeric_literal s"
    by (rule Number_NaN_iff)
  have 5: "String_trim s = [] \<longrightarrow> Number (Str s) = Fin 0"
    by (simp add: StringToNumber_def)
  from 1 2 3 4 5 show ?thesis by (intro conjI)
qed

theorem receivedStatus_never_throws_witness:
  "Headers_get [(''receivedStatus'', ''OK'')] ''receivedStatus'' = Some ''OK'' \<and>
   Headers_get [(''receivedStatus'', ''OK'')] ''incomingHeaders'' = None \<and>
   \<not> numeric_literal ''OK'' \<and>
   (\<exists>r. fetch (JSON_parse_table []) new_Headers_record
          (reply_with \<lparr>status = Fin 200, statusText = ''OK'',
             headers = Inr [(''receivedStatus'', ''OK'')], body = []\<rparr>)
          relay (EndpointString ''https://target.example/'') no_options = Inr r \<and>
        status r = NaN) \<and>
   Headers_get [(''receivedStatus'', [])] ''receivedStatus'' = Some [] \<and>
   String_trim [] = [] \<and>
   (\<exists>r. fetch (JSON_parse_table []) new_Headers_record
          (reply_with \<lparr>status = Fin 200, statusText = ''OK'',
             headers = Inr [(''receivedStatus'', [])], body = []\<rparr>)
          relay (EndpointString ''https://target.example/'') no_options = Inr r \<and>
        status r = Fin 0) \<and>
   Headers_get [(''receivedStatus'', ''Infinity'')] ''receivedStatus'' = Some ''Infinity'' \<and>
   (\<exists>r. fetch (JSON_parse_table []) new_Headers_record
          (reply_with \<lparr>status = Fin 200, statusText = ''OK'',
             headers = Inr [(''receivedStatus'', ''Infinity'')], body = []\<rparr>)
          relay (EndpointString ''https://target.example/'') no_options = Inr r \<and>
        status r = PosInf)"
proof -
  let ?ep = "EndpointString ''https://target.example/''"
  let ?res = "\<lambda>v. \<lparr>status = Fin 200, statusText = ''OK'',
                headers = Inr [(''receivedStatus'', v)], body = []\<rparr>"
  have t: "reply_with (?res v) (proxyEndpoint relay) (configuredOptions ?ep no_options) = Inr (?res v)"
    for v by (simp add: reply_with_def)
  have h: "headers (?res v) = Inr [(''receivedStatus'', v)]" for v by simp
  have g1: "Headers_get [(''receivedStatus'', ''OK'')] ''receivedStatus'' = Some ''OK''"
    by code_simp
  have i1: "Headers_get [(''receivedStatus'', ''OK'')] ''incomingHeaders'' = None" by code_simp
  have n1: "\<not> numeric_literal ''OK''" by code_simp
  have g2: "Headers_get [(''receivedStatus'', [])] ''receivedStatus'' = Some []" by code_simp
  have i2: "Headers_get [(''receivedStatus'', [])] ''incomingHeaders'' = None" by code_simp
  have n2: "String_trim [] = []" by code_simp
  have g3: "Headers_get [(''receivedStatus'', ''Infinity'')] ''receivedStatus'' = Some ''Infinity''"
    by code_simp
  have i3: "Headers_get [(''receivedStatus'', ''Infinity'')] ''incomingHeaders'' = None"
    by code_simp
  have n3: "Number (Str ''Infinity'') = PosInf" by code_simp
  note w1 = receivedStatus_never_throws [where transport = "reply_with (?res ''OK'')"
      and self = relay and options = no_options and endpoint = ?ep and res = "?res ''OK''"
      and physical = "[(''receivedStatus'', ''OK'')]" and s = "''OK''"
      and JSON_parse = "JSON_parse_table []" and new_Headers = new_Headers_record, OF t h g1]
  note w2 = receivedStatus_never_throws [where transport = "reply_with (?res [])"
      and self = relay and options = no_options and endpoint = ?ep and res = "?res []"
      and physical = "[(''receivedStatus'', [])]" and s = "[]"
      and JSON_parse = "JSON_parse_table []" and new_Headers = new_Headers_record, OF t h g2]
  note w3 = receivedStatus_never_throws [where transport = "reply_with (?res ''Infinity'')"
      and self = relay and options = no_options and endpoint = ?ep and res = "?res ''Infinity''"
      and physical = "[(''receivedStatus'', ''Infinity'')]" and s = "''Infinity''"
      and JSON_parse = "JSON_parse_table []" and new_Headers = new_Headers_record, OF t h g3]
  from w1 i1 n1 have 1: "\<exists>r. fetch (JSON_parse_table []) new_Headers_record
          (reply_with (?res ''OK'')) relay ?ep no_options = Inr r \<and> status r = NaN"
    by metis
  from w2 i2 n2 have 2: "\<exists>r. fetch (JSON_parse_table []) new_Headers_record
          (reply_with (?res [])) relay ?ep no_options = Inr r \<and> status r = Fin 0"
    by metis
  from w3 i3 n3 have 3: "\<exists>r. fetch (JSON_parse_table []) new_Headers_record
          (reply_with (?res ''Infinity'')) relay ?ep no_options = Inr r \<and> status r = PosInf"
    by metis
  from g1 i1 n1 1 g2 n2 2 g3 3 show ?thesis by (intro conjI)
qed

text \<open>C6 as stated fails for the value \<open>abc\<close>: the call returns, with the status
  \<open>NaN\<close>.\<close>

theorem nonnumeric_status_counterexample:
  "Number (Str ''abc'') = NaN \<and>
   fetch (JSON_parse_table []) new_Headers_record
     (reply_with \<lparr>status = Fin 200, statusText = ''OK'',
        headers = Inr [(''receivedStatus'', ''abc'')], body = ''hi''\<rparr>)
     relay (EndpointString ''https://target.example/'') no_options =
   Inr \<lparr>status = NaN, statusText = ''OK'', headers = Inr [(''receivedStatus'', ''abc'')],
        body = ''hi'', proxyHeaders = [(''receivedStatus'', ''abc'')]\<rparr>"
  by code_simp

text \<open>
  C10, as the code has it. A response that the raw parser returns has an integer status
  from 200 to 599. The status of a response that \<open>FetchProxy.fetch\<close> returns is the
  status of the reply when the reply carries no \<open>receivedStatus\<close>, and \<open>Number\<close> of
  that header's value when it does, whatever number that is.
\<close>

theorem status_of_responses:
  "(parseRawHttpResponse raw = Inr r \<longrightarrow>
      positive_integer (status r) \<and> (\<exists>n. status r = Fin (of_nat n) \<and> 200 \<le> n \<and> n \<le> 599)) \<and>
   (transport (proxyEndpoint self) (configuredOptions endpoint options) = Inr res \<and>
    headers res = Inr physical \<and>
    fetch JSON_parse new_Headers transport self endpoint options = Inr p \<longrightarrow>
      status p = (case Headers_get physical ''receivedStatus'' of
                    None \<Rightarrow> status res
                  | Some t \<Rightarrow> Number (Str t)))"
proof (intro conjI impI)
  assume a: "parseRawHttpResponse raw = Inr r"
  from parse_status_range [OF a] show "\<exists>n. status r = Fin (of_nat n) \<and> 200 \<le> n \<and> n \<le> 599" .
  then show "positive_integer (status r)" by (auto simp: positive_integer_def)
next
  assume a: "transport (proxyEndpoint self) (configuredOptions endpoint options) = Inr res \<and>
    headers res = Inr physical \<and>
    fetch JSON_parse new_Headers transport self endpoint options = Inr p"
  then show "status p = (case Headers_get physical ''receivedStatus'' of
                    None \<Rightarrow> status res
                  | Some t \<Rightarrow> Number (Str t))"
    by (auto simp: fetch_def resWithHeaders_eq split: sum.splits option.splits)
qed

theorem status_of_responses_witness:
  "parseRawHttpResponse (''HTTP/1.1 404 Not Found'' @ [LF, LF] @ ''gone'') =
     Inr \<lparr>status = Fin 404, statusText = ''Not Found'',
          headers = Inr [(''content-type'', ''text/plain;charset=UTF-8'')], body = ''gone''\<rparr> \<and>
   positive_integer (Fin 404) \<and>
   fetch (JSON_parse_table []) new_Headers_record
     (reply_with \<lparr>status = Fin 200, statusText = ''OK'',
        headers = Inr [(''receivedStatus'', ''-1.5'')], body = []\<rparr>)
     relay (EndpointString ''https://target.example/'') no_options =
   Inr \<lparr>status = Fin (- 3 / 2), statusText = ''OK'', headers = Inr [(''receivedStatus'', ''-1.5'')],
        body = [], proxyHeaders = [(''receivedStatus'', ''-1.5'')]\<rparr> \<and>
   Number (Str ''-1.5'') = Fin (- 3 / 2)"
proof -
  let ?ep = "EndpointString ''https://target.example/''"
  let ?raw = "''HTTP/1.1 404 Not Found'' @ [LF, LF] @ ''gone''"
  let ?r = "\<lparr>status = Fin 404, statusText = ''Not Found'',
          headers = Inr [(''content-type'', ''text/plain;charset=UTF-8'')], body = ''gone''\<rparr>"
  let ?res = "\<lparr>status = Fin 200, statusText = ''OK'',
                headers = Inr [(''receivedStatus'', ''-1.5'')], body = []\<rparr>"
  let ?p = "\<lparr>status = Fin (- 3 / 2), statusText = ''OK'',
        headers = Inr [(''receivedStatus'', ''-1.5'')],
        body = [], proxyHeaders = [(''receivedStatus'', ''-1.5'')]\<rparr>"
  have a: "parseRawHttpResponse ?raw = Inr ?r" by code_simp
  have f: "fetch (JSON_parse_table []) new_Headers_record (reply_with ?res) relay ?ep no_options
           = Inr ?p"
    by code_simp
  have n: "Number (Str ''-1.5'') = Fin (- 3 / 2)" by code_simp
  have t: "reply_with ?res (proxyEndpoint relay) (configuredOptions ?ep no_options) = Inr ?res"
    by (simp add: reply_with_def)
  have h: "headers ?res = Inr [(''receivedStatus'', ''-1.5'')]" by simp
  from status_of_responses [where raw = ?raw and r = ?r and transport = "reply_with ?res"
      and self = relay and options = no_options and endpoint = ?ep and res = ?res
      and physical = "[(''receivedStatus'', ''-1.5'')]" and JSON_parse = "JSON_parse_table []"
      and new_Headers = new_Headers_record and p = ?p] a t h f
  have "positive_integer (status ?r)" by blast
  then have "positive_integer (Fin 404)" by simp
  with a f n show ?thesis by blast
qed

text \<open>C10 as stated fails for the value \<open>0\<close> of \<open>receivedStatus\<close>: the status of
  the response returned is 0, which is no positive integer.\<close>

theorem status_zero_counterexample:
  "fetch (JSON_parse_table []) new_Headers_record
     (reply_with \<lparr>status = Fin 200, statusText = ''OK'',
        headers = Inr [(''receivedStatus'', ''0'')], body = ''hi''\<rparr>)
     relay (EndpointString ''https://target.example/'') no_options =
   Inr \<lparr>status = Fin 0, statusText = ''OK'', headers = Inr [(''receivedStatus'', ''0'')],
        body = ''hi'', proxyHeaders = [(''receivedStatus'', ''0'')]\<rparr> \<and>
   \<not> positive_integer (Fin 0)"
  by code_simp

end
